theory Spec2Isabelle
  imports Main
begin

section \<open>JSON values and text frames\<close>

text \<open>
  The relay actor (class \<open>EndpointDO\<close>) and its clients exchange JSON texts over
  WebSockets. A JSON value is modelled structurally. The numbers that travel here are HTTP
  status codes and durations in milliseconds, so a number is an \<open>int\<close>. An object is the
  list of its own properties in insertion order.
\<close>

datatype json =
    JNull
  | JBool bool
  | JNumber int
  | JString string
  | JArray "json list"
  | JObject "(string \<times> json) list"

text \<open>What a handler can throw.\<close>

datatype js_error = TypeError | SyntaxError

text \<open>
  A call either returns a value or throws. Handlers return the actor's state after the call
  together with this outcome, so that the effects performed before a throw stay visible.
\<close>

datatype 'a outcome = Returned 'a | Thrown js_error

text \<open>
  A string on the wire is represented by what \<open>JSON.parse\<close> makes of it: \<open>Wire_json v\<close>
  is a text that parses to \<open>v\<close>, and \<open>Wire_other s\<close> is a text \<open>s\<close> on which
  \<open>JSON.parse\<close> throws a SyntaxError. \<open>JSON.stringify v\<close> is the text \<open>Wire_json v\<close>.
\<close>

datatype wire = Wire_json json | Wire_other string

fun JSON_parse :: "wire \<Rightarrow> js_error + json" where
  "JSON_parse (Wire_json v) = Inr v"
| "JSON_parse (Wire_other s) = Inl SyntaxError"

definition JSON_stringify :: "json \<Rightarrow> wire" where
  "JSON_stringify v = Wire_json v"

text \<open>
  An object literal whose property values may be \<open>undefined\<close> (\<open>None\<close>);
  \<open>JSON.stringify\<close> leaves such properties out.
\<close>

fun defined_props :: "(string \<times> json option) list \<Rightarrow> (string \<times> json) list" where
  "defined_props [] = []"
| "defined_props ((k, None) # kvs) = defined_props kvs"
| "defined_props ((k, Some v) # kvs) = (k, v) # defined_props kvs"

definition stringify_object :: "(string \<times> json option) list \<Rightarrow> wire" where
  "stringify_object props = JSON_stringify (JObject (defined_props props))"

text \<open>
  Reading a property \<open>v.k\<close> for one of the keys the handlers read (\<open>type\<close>,
  \<open>eventId\<close>, \<open>deliveryId\<close>, \<open>status\<close>, ...): on \<open>null\<close> the read throws a
  TypeError; on an object it is the property or \<open>undefined\<close>; on the other values these
  keys are \<open>undefined\<close>.
\<close>

fun field :: "json \<Rightarrow> string \<Rightarrow> json option" where
  "field (JObject kvs) k = map_of kvs k"
| "field _ k = None"

fun get_prop :: "json \<Rightarrow> string \<Rightarrow> js_error + json option" where
  "get_prop JNull k = Inl TypeError"
| "get_prop v k = Inr (field v k)"

text \<open>A value of type \<open>string | null\<close> as JSON.\<close>

fun nullable :: "string option \<Rightarrow> json" where
  "nullable None = JNull"
| "nullable (Some s) = JString s"

text \<open>
  JavaScript truthiness of an optional string: \<open>undefined\<close>, \<open>null\<close> and the empty
  string are falsy.
\<close>

fun truthy :: "string option \<Rightarrow> bool" where
  "truthy None = False"
| "truthy (Some s) = (s \<noteq> [])"

text \<open>\<open>x ?? d\<close> on an optional string.\<close>

fun nullish_or :: "string option \<Rightarrow> string \<Rightarrow> string" where
  "nullish_or None d = d"
| "nullish_or (Some s) d = s"

section \<open>The relay actor: sockets, attachments and the send log\<close>

text \<open>The attachment stored on each socket (interface \<open>WsAttachment\<close>).\<close>

record WsAttachment =
  machineId :: "string option"
  machineName :: "string option"
  role :: string
  userId :: string

text \<open>
  A server-side socket: its identity (object identity in the source, compared by
  \<open>ws === except\<close>) and what \<open>deserializeAttachment\<close> returns for it (\<open>None\<close> is
  \<open>null\<close>).
\<close>

record WebSocket =
  ws_id :: nat
  attachment :: "WsAttachment option"

text \<open>
  The actor's state. \<open>sockets\<close> is what \<open>ctx.getWebSockets()\<close> returns, in the order
  of acceptance. \<open>sent\<close> records every \<open>ws.send\<close> call in order (socket and text); a
  send on a dead socket throws and the source swallows that, so the log holds the sends
  attempted. \<open>closed\<close> records every \<open>ws.close\<close> call. \<open>next_id\<close> is the identity the
  next \<open>WebSocketPair\<close> gets.
\<close>

record EndpointDO =
  sockets :: "WebSocket list"
  sent :: "(nat \<times> wire) list"
  closed :: "(nat \<times> nat \<times> string) list"
  next_id :: nat

definition ws_send :: "EndpointDO \<Rightarrow> WebSocket \<Rightarrow> wire \<Rightarrow> EndpointDO" where
  "ws_send s ws message = s\<lparr>sent := sent s @ [(ws_id ws, message)]\<rparr>"

text \<open>
  \<open>ws.close(code, reason)\<close>: the call is recorded, and the socket is no longer among the
  sockets the context returns. Closing a socket that is already gone changes only the log.
\<close>

definition ws_close :: "EndpointDO \<Rightarrow> WebSocket \<Rightarrow> nat \<Rightarrow> string \<Rightarrow> EndpointDO" where
  "ws_close s ws code reason =
     s\<lparr>sockets := filter (\<lambda>w. ws_id w \<noteq> ws_id ws) (sockets s),
       closed := closed s @ [(ws_id ws, code, reason)]\<rparr>"

definition has_role :: "string \<Rightarrow> WebSocket \<Rightarrow> bool" where
  "has_role r ws = (case attachment ws of None \<Rightarrow> False | Some att \<Rightarrow> role att = r)"

definition getMachineWebSockets :: "EndpointDO \<Rightarrow> WebSocket list" where
  "getMachineWebSockets s = filter (has_role ''machine'') (sockets s)"

definition getViewerWebSockets :: "EndpointDO \<Rightarrow> WebSocket list" where
  "getViewerWebSockets s = filter (has_role ''viewer'') (sockets s)"

text \<open>The loop of \<open>broadcastToViewers\<close> and \<open>broadcastToMachines\<close> over a socket list.\<close>

fun send_each :: "WebSocket list \<Rightarrow> wire \<Rightarrow> EndpointDO \<Rightarrow> EndpointDO" where
  "send_each [] message s = s"
| "send_each (ws # rest) message s = send_each rest message (ws_send s ws message)"

definition broadcastToViewers :: "EndpointDO \<Rightarrow> wire \<Rightarrow> EndpointDO" where
  "broadcastToViewers s message = send_each (getViewerWebSockets s) message s"

text \<open>\<open>except\<close> is optional in the source; \<open>ws === except\<close> compares identities.\<close>

definition broadcastToMachines :: "EndpointDO \<Rightarrow> wire \<Rightarrow> WebSocket option \<Rightarrow> EndpointDO" where
  "broadcastToMachines s message except =
     send_each
       (filter (\<lambda>ws. case except of None \<Rightarrow> True | Some e \<Rightarrow> ws_id ws \<noteq> ws_id e)
          (getMachineWebSockets s))
       message s"

section \<open>Server messages\<close>

definition MachineStatusMessage :: "string \<Rightarrow> string \<Rightarrow> string \<Rightarrow> json" where
  "MachineStatusMessage mid mname st =
     JObject [(''type'', JString ''machine-status''),
              (''machineId'', JString mid),
              (''machineName'', JString mname),
              (''status'', JString st)]"

text \<open>
  What reading a member \<open>obj[key]\<close> of a plain object with string values can yield: the
  object's own string, or a member inherited from \<open>Object.prototype\<close> (one of its
  functions, or through the accessor \<open>__proto__\<close> the prototype object itself), or
  \<open>undefined\<close>.
\<close>

datatype js_value = JS_undefined | JS_string string | JS_function | JS_Object_prototype

text \<open>The function members of \<open>Object.prototype\<close>, as the language standard lists them.\<close>

definition Object_prototype_functions :: "string list" where
  "Object_prototype_functions =
     [''constructor'', ''__defineGetter__'', ''__defineSetter__'', ''hasOwnProperty'',
      ''__lookupGetter__'', ''__lookupSetter__'', ''isPrototypeOf'', ''propertyIsEnumerable'',
      ''toString'', ''valueOf'', ''toLocaleString'']"

text \<open>A key that names a member of \<open>Object.prototype\<close>.\<close>

definition inherited_name :: "string \<Rightarrow> bool" where
  "inherited_name k = (k \<in> set Object_prototype_functions \<or> k = ''__proto__'')"

text \<open>
  \<open>obj[key]\<close> for an object parsed from JSON whose own properties are \<open>own\<close>: an own
  property wins; otherwise the prototype chain is searched.
\<close>

definition get_member :: "(string \<rightharpoonup> string) \<Rightarrow> string \<Rightarrow> js_value" where
  "get_member own k =
     (case own k of
        Some v \<Rightarrow> JS_string v
      | None \<Rightarrow>
          if k \<in> set Object_prototype_functions then JS_function
          else if k = ''__proto__'' then JS_Object_prototype
          else JS_undefined)"

fun js_truthy :: "js_value \<Rightarrow> bool" where
  "js_truthy JS_undefined = False"
| "js_truthy (JS_string s) = (s \<noteq> [])"
| "js_truthy JS_function = True"
| "js_truthy JS_Object_prototype = True"

text \<open>
  The value as a property of an object given to \<open>JSON.stringify\<close>: a property whose value
  is \<open>undefined\<close> or a function is left out, and \<open>Object.prototype\<close> has no enumerable
  property of its own.
\<close>

fun json_of_js :: "js_value \<Rightarrow> json option" where
  "json_of_js JS_undefined = None"
| "json_of_js (JS_string s) = Some (JString s)"
| "json_of_js JS_function = None"
| "json_of_js JS_Object_prototype = Some (JObject [])"

text \<open>
  The body of a \<open>POST /broadcast\<close> request, with the types the source declares.
  \<open>deliveries\<close> holds the own properties of the deliveries object.
\<close>

record BroadcastPayload =
  body :: "string option"
  contentType :: "string option"
  createdAt :: string
  deliveries :: "string \<rightharpoonup> string"
  eventId :: string
  headers :: string
  http_method :: string
  query :: "string option"
  sourceIp :: "string option"

text \<open>
  The webhook object literal of \<open>handleBroadcast\<close>, with the value the loop read for
  \<open>deliveryId\<close>.
\<close>

definition webhook_literal :: "BroadcastPayload \<Rightarrow> js_value \<Rightarrow> (string \<times> json option) list" where
  "webhook_literal payload deliveryId =
     [(''type'', Some (JString ''webhook'')),
      (''eventId'', Some (JString (eventId payload))),
      (''deliveryId'', json_of_js deliveryId),
      (''method'', Some (JString (http_method payload))),
      (''headers'', Some (JString (headers payload))),
      (''body'', Some (nullable (body payload))),
      (''query'', Some (nullable (query payload))),
      (''contentType'', Some (nullable (contentType payload))),
      (''sourceIp'', Some (nullable (sourceIp payload))),
      (''createdAt'', Some (JString (createdAt payload)))]"

text \<open>
  The message of the interface \<open>WebhookEventMessage\<close>: the literal above when the
  delivery id is a string, as the interface declares it.
\<close>

definition WebhookEventMessage :: "BroadcastPayload \<Rightarrow> string \<Rightarrow> json" where
  "WebhookEventMessage payload deliveryId =
     JObject [(''type'', JString ''webhook''),
              (''eventId'', JString (eventId payload)),
              (''deliveryId'', JString deliveryId),
              (''method'', JString (http_method payload)),
              (''headers'', JString (headers payload)),
              (''body'', nullable (body payload)),
              (''query'', nullable (query payload)),
              (''contentType'', nullable (contentType payload)),
              (''sourceIp'', nullable (sourceIp payload)),
              (''createdAt'', JString (createdAt payload))]"

text \<open>
  The delivery-result object literal of \<open>webSocketMessage\<close>: the report's fields are
  read from the parsed message and may be \<open>undefined\<close>.
\<close>

definition DeliveryResultMessage :: "json \<Rightarrow> WsAttachment \<Rightarrow> (string \<times> json option) list" where
  "DeliveryResultMessage parsed att =
     [(''type'', Some (JString ''delivery-result'')),
      (''eventId'', field parsed ''eventId''),
      (''deliveryId'', field parsed ''deliveryId''),
      (''machineId'', Some (JString (nullish_or (machineId att) ''''))),
      (''machineName'', Some (JString (nullish_or (machineName att) ''''))),
      (''status'', field parsed ''status''),
      (''responseStatus'', field parsed ''responseStatus''),
      (''responseBody'', field parsed ''responseBody''),
      (''error'', field parsed ''error''),
      (''duration'', field parsed ''duration'')]"

section \<open>The relay actor: handlers\<close>

text \<open>
  The query parameters of an upgrade request; \<open>None\<close> is a parameter that is absent
  (\<open>searchParams.get\<close> returns \<open>null\<close>).
\<close>

record UpgradeQuery =
  q_role :: "string option"
  q_machineId :: "string option"
  q_machineName :: "string option"
  q_userId :: "string option"

text \<open>A machine socket that has both a machine id and a machine name.\<close>

definition named_machine :: "WebSocket \<Rightarrow> bool" where
  "named_machine ws =
     (case attachment ws of
        None \<Rightarrow> False
      | Some att \<Rightarrow> truthy (machineId att) \<and> truthy (machineName att))"

text \<open>The snapshot loop of the upgrade handler: one send to the new socket per machine.\<close>

fun send_snapshot :: "WebSocket \<Rightarrow> WebSocket list \<Rightarrow> EndpointDO \<Rightarrow> EndpointDO" where
  "send_snapshot server [] s = s"
| "send_snapshot server (ws # rest) s =
     (case attachment ws of
        None \<Rightarrow> send_snapshot server rest s
      | Some att \<Rightarrow>
          if truthy (machineId att) \<and> truthy (machineName att)
          then send_snapshot server rest
                 (ws_send s server
                    (JSON_stringify
                       (MachineStatusMessage (nullish_or (machineId att) '''')
                          (nullish_or (machineName att) '''') ''online'')))
          else send_snapshot server rest s)"

text \<open>
  \<open>handleWebSocketUpgrade\<close>. The result is the response status (400 or 101) and the
  state after the call.
\<close>

definition handleWebSocketUpgrade :: "EndpointDO \<Rightarrow> UpgradeQuery \<Rightarrow> EndpointDO \<times> nat" where
  "handleWebSocketUpgrade s q =
     (let r = q_role q;
          mid = q_machineId q;
          mname = q_machineName q;
          uid = nullish_or (q_userId q) ''''
      in if \<not> (truthy r \<and> uid \<noteq> []) then (s, 400)
         else
           let att = \<lparr>machineId = mid, machineName = mname,
                      role = nullish_or r '''', userId = uid\<rparr>;
               server = \<lparr>ws_id = next_id s, attachment = Some att\<rparr>;
               s1 = s\<lparr>sockets := sockets s @ [server], next_id := Suc (next_id s)\<rparr>;
               s2 = (if r = Some ''machine'' \<and> truthy mid \<and> truthy mname
                     then broadcastToViewers s1
                            (JSON_stringify
                               (MachineStatusMessage (nullish_or mid '''')
                                  (nullish_or mname '''') ''online''))
                     else s1);
               s3 = (if r = Some ''viewer''
                     then send_snapshot server (getMachineWebSockets s2) s2
                     else s2)
           in (s3, 101))"

text \<open>
  The loop of \<open>handleBroadcast\<close>. The source casts the attachment to a non-null
  \<open>WsAttachment\<close>; reading \<open>machineId\<close> of \<open>null\<close> would throw. The delivery id is
  read as \<open>payload.deliveries[attachment.machineId]\<close>, a member read that also finds what
  the deliveries object inherits, and is tested for truthiness.
\<close>

fun broadcast_loop ::
  "BroadcastPayload \<Rightarrow> WebSocket list \<Rightarrow> EndpointDO \<Rightarrow> EndpointDO \<times> unit outcome" where
  "broadcast_loop payload [] s = (s, Returned ())"
| "broadcast_loop payload (ws # machines) s =
     (case attachment ws of
        None \<Rightarrow> (s, Thrown TypeError)
      | Some att \<Rightarrow>
          if \<not> truthy (machineId att) then broadcast_loop payload machines s
          else
            let deliveryId = get_member (deliveries payload) (nullish_or (machineId att) '''')
            in if \<not> js_truthy deliveryId then broadcast_loop payload machines s
               else broadcast_loop payload machines
                      (ws_send s ws (stringify_object (webhook_literal payload deliveryId))))"

text \<open>\<open>handleBroadcast\<close>: the value returned is the \<open>sent\<close> field of the response.\<close>

definition handleBroadcast :: "EndpointDO \<Rightarrow> BroadcastPayload \<Rightarrow> EndpointDO \<times> nat outcome" where
  "handleBroadcast s payload =
     (let machines = getMachineWebSockets s
      in case broadcast_loop payload machines s of
           (s', Thrown e) \<Rightarrow> (s', Thrown e)
         | (s', Returned u) \<Rightarrow> (s', Returned (length machines)))"

text \<open>An inbound WebSocket message: \<open>string | ArrayBuffer\<close>.\<close>

datatype ws_message = ArrayBuffer | Text wire

definition webSocketMessage ::
  "EndpointDO \<Rightarrow> WebSocket \<Rightarrow> ws_message \<Rightarrow> EndpointDO \<times> unit outcome" where
  "webSocketMessage s ws message =
     (case message of
        ArrayBuffer \<Rightarrow> (s, Returned ())
      | Text t \<Rightarrow>
          (case JSON_parse t of
             Inl e \<Rightarrow> (s, Returned ())
           | Inr parsed \<Rightarrow>
               (case get_prop parsed ''type'' of
                  Inl e \<Rightarrow> (s, Thrown e)
                | Inr ty \<Rightarrow>
                    if ty = Some (JString ''delivery-report'') then
                      (case attachment ws of
                         None \<Rightarrow> (s, Thrown TypeError)
                       | Some att \<Rightarrow>
                           let resultMsg = stringify_object (DeliveryResultMessage parsed att);
                               s1 = broadcastToViewers s resultMsg
                           in (broadcastToMachines s1 resultMsg (Some ws), Returned ()))
                    else (s, Returned ()))))"

text \<open>The offline notice both disconnect handlers send.\<close>

definition notify_offline :: "EndpointDO \<Rightarrow> WebSocket \<Rightarrow> EndpointDO" where
  "notify_offline s ws =
     (case attachment ws of
        None \<Rightarrow> s
      | Some att \<Rightarrow>
          if role att = ''machine'' \<and> truthy (machineId att)
          then broadcastToViewers s
                 (JSON_stringify
                    (MachineStatusMessage (nullish_or (machineId att) '''')
                       (nullish_or (machineName att) '''') ''offline''))
          else s)"

definition webSocketClose :: "EndpointDO \<Rightarrow> WebSocket \<Rightarrow> nat \<Rightarrow> string \<Rightarrow> EndpointDO" where
  "webSocketClose s ws code reason = ws_close (notify_offline s ws) ws code reason"

definition webSocketError :: "EndpointDO \<Rightarrow> WebSocket \<Rightarrow> EndpointDO" where
  "webSocketError s ws = ws_close (notify_offline s ws) ws 1011 ''WebSocket error''"

section \<open>Runs of the relay actor\<close>

text \<open>
  One call into the actor: an upgrade request, a broadcast request, or one of the
  hibernation callbacks with the socket the host passes.
\<close>

datatype event =
    Upgrade UpgradeQuery
  | Broadcast BroadcastPayload
  | Message WebSocket ws_message
  | Close WebSocket nat string
  | Error WebSocket

fun step :: "EndpointDO \<Rightarrow> event \<Rightarrow> EndpointDO" where
  "step s (Upgrade q) = fst (handleWebSocketUpgrade s q)"
| "step s (Broadcast payload) = fst (handleBroadcast s payload)"
| "step s (Message ws message) = fst (webSocketMessage s ws message)"
| "step s (Close ws code reason) = webSocketClose s ws code reason"
| "step s (Error ws) = webSocketError s ws"

definition run :: "EndpointDO \<Rightarrow> event list \<Rightarrow> EndpointDO" where
  "run s evs = foldl step s evs"

text \<open>An upgrade request that asks for the machine role.\<close>

fun machine_upgrade :: "event \<Rightarrow> bool" where
  "machine_upgrade (Upgrade q) = (q_role q = Some ''machine'')"
| "machine_upgrade _ = False"

text \<open>The sends a call added to the log, and the texts one socket was sent.\<close>

definition sent_since :: "EndpointDO \<Rightarrow> EndpointDO \<Rightarrow> (nat \<times> wire) list" where
  "sent_since s s' = drop (length (sent s)) (sent s')"

definition received :: "(nat \<times> wire) list \<Rightarrow> nat \<Rightarrow> wire list" where
  "received log i = map snd (filter (\<lambda>e. fst e = i) log)"

text \<open>
  Socket identities are distinct, and every identity in use is below the next one to be
  handed out.
\<close>

definition well_formed :: "EndpointDO \<Rightarrow> bool" where
  "well_formed s =
     (distinct (map ws_id (sockets s)) \<and>
      list_all (\<lambda>ws. ws_id ws < next_id s) (sockets s) \<and>
      list_all (\<lambda>e. fst e < next_id s) (sent s))"

text \<open>A machine-status text announcing a machine as online, or as offline.\<close>

fun is_online_status :: "wire \<Rightarrow> bool" where
  "is_online_status (Wire_json v) =
     (field v ''type'' = Some (JString ''machine-status'') \<and>
      field v ''status'' = Some (JString ''online''))"
| "is_online_status (Wire_other s) = False"

fun is_offline_status :: "wire \<Rightarrow> bool" where
  "is_offline_status (Wire_json v) =
     (field v ''type'' = Some (JString ''machine-status'') \<and>
      field v ''status'' = Some (JString ''offline''))"
| "is_offline_status (Wire_other s) = False"

text \<open>The status text the handlers build for a socket's attachment.\<close>

definition status_text :: "string \<Rightarrow> WebSocket \<Rightarrow> wire" where
  "status_text st ws =
     (case attachment ws of
        None \<Rightarrow> JSON_stringify (MachineStatusMessage '''' '''' st)
      | Some att \<Rightarrow>
          JSON_stringify
            (MachineStatusMessage (nullish_or (machineId att) '''')
               (nullish_or (machineName att) '''') st))"

text \<open>
  The value the fan-out loop sends a socket as its delivery id, if it sends: the socket has
  a non-empty machine id and the member read on the deliveries object is truthy.
\<close>

definition delivery_for :: "BroadcastPayload \<Rightarrow> WebSocket \<Rightarrow> js_value option" where
  "delivery_for payload ws =
     (case attachment ws of
        None \<Rightarrow> None
      | Some att \<Rightarrow>
          if truthy (machineId att) \<and>
             js_truthy (get_member (deliveries payload) (nullish_or (machineId att) ''''))
          then Some (get_member (deliveries payload) (nullish_or (machineId att) ''''))
          else None)"

text \<open>The sockets for which the disconnect handlers notify the viewers.\<close>

definition offline_target :: "WebSocket \<Rightarrow> bool" where
  "offline_target ws =
     (case attachment ws of
        None \<Rightarrow> False
      | Some att \<Rightarrow> role att = ''machine'' \<and> truthy (machineId att))"

section \<open>The machine client: local forwarding and the delivery report\<close>

text \<open>
  What the \<open>try\<close> block of \<open>forwardWebhookLocally\<close> meets: something is thrown (by
  \<open>fetch\<close>, by \<open>new URL\<close>, by the destructuring of the parsed headers), an \<open>Error\<close>
  with its message or another value; or \<open>fetch\<close> resolves with a response.
  \<open>res_text\<close> is \<open>None\<close> when \<open>res.text()\<close> rejects.
\<close>

datatype thrown = ErrorObject string | OtherValue

record Response =
  res_status :: nat
  res_text :: "string option"

text \<open>\<open>res.ok\<close>, as the Fetch standard defines it: the status is in the range 200 to 299.\<close>

definition res_ok :: "Response \<Rightarrow> bool" where
  "res_ok res = (200 \<le> res_status res \<and> res_status res \<le> 299)"

datatype forward_attempt = Threw thrown | Responded Response

datatype delivery_status = Delivered | Failed

fun status_string :: "delivery_status \<Rightarrow> string" where
  "status_string Delivered = ''delivered''"
| "status_string Failed = ''failed''"

record ForwardResult =
  duration :: int
  error :: "string option"
  responseBody :: "string option"
  responseStatus :: "nat option"
  status :: delivery_status

text \<open>
  \<open>forwardWebhookLocally\<close>. \<open>startTime\<close> is the clock before the attempt and \<open>now\<close>
  the clock when \<open>duration\<close> is computed. The forward URL and the webhook message only
  shape the request; what comes back is \<open>attempt\<close>.
\<close>

definition forwardWebhookLocally :: "int \<Rightarrow> int \<Rightarrow> forward_attempt \<Rightarrow> ForwardResult" where
  "forwardWebhookLocally startTime now attempt =
     (case attempt of
        Responded res \<Rightarrow>
          \<lparr>duration = now - startTime,
           error = None,
           responseBody =
             (case res_text res of
                None \<Rightarrow> None
              | Some b \<Rightarrow> if length b > 10000 then Some (take 10000 b) else Some b),
           responseStatus = Some (res_status res),
           status = (if res_ok res then Delivered else Failed)\<rparr>
      | Threw err \<Rightarrow>
          \<lparr>duration = now - startTime,
           error = Some (case err of ErrorObject m \<Rightarrow> m | OtherValue \<Rightarrow> ''Unknown error''),
           responseBody = None,
           responseStatus = None,
           status = Failed\<rparr>)"

fun nullable_number :: "nat option \<Rightarrow> json" where
  "nullable_number None = JNull"
| "nullable_number (Some n) = JNumber (int n)"

text \<open>The delivery-report object literal of the monitor screen.\<close>

definition delivery_report :: "json \<Rightarrow> ForwardResult \<Rightarrow> (string \<times> json option) list" where
  "delivery_report webhookMsg result =
     [(''type'', Some (JString ''delivery-report'')),
      (''eventId'', field webhookMsg ''eventId''),
      (''deliveryId'', field webhookMsg ''deliveryId''),
      (''status'', Some (JString (status_string (status result)))),
      (''responseStatus'', Some (nullable_number (responseStatus result))),
      (''responseBody'', Some (nullable (responseBody result))),
      (''error'', Some (nullable (error result))),
      (''duration'', Some (JNumber (duration result)))]"

text \<open>
  The message listener of the monitor screen, as far as the socket is concerned: the result
  is the list of texts it sends back. On a webhook message it forwards locally and then
  sends the report. (The listener also updates the screen's event list, and on a
  delivery-result message only that; the screen state is not modelled.)
\<close>

definition monitor_onmessage ::
  "int \<Rightarrow> int \<Rightarrow> forward_attempt \<Rightarrow> ws_message \<Rightarrow> wire list outcome" where
  "monitor_onmessage startTime now attempt data =
     (case data of
        ArrayBuffer \<Rightarrow> Returned []
      | Text t \<Rightarrow>
          (case JSON_parse t of
             Inl e \<Rightarrow> Returned []
           | Inr parsed \<Rightarrow>
               (case get_prop parsed ''type'' of
                  Inl e \<Rightarrow> Thrown e
                | Inr ty \<Rightarrow>
                    if ty = Some (JString ''webhook'')
                    then Returned
                           [stringify_object
                              (delivery_report parsed
                                 (forwardWebhookLocally startTime now attempt))]
                    else Returned [])))"

section \<open>The machine identity resolver\<close>

record Machine =
  m_endpointId :: string
  m_forwardUrl :: string
  m_id :: string
  m_name :: string
  m_status :: string

definition is_digit :: "char \<Rightarrow> bool" where
  "is_digit c = (c \<in> set ''0123456789'')"

text \<open>The line terminators that \<open>.\<close> does not match (those a \<open>char\<close> can hold).\<close>

definition is_line_terminator :: "char \<Rightarrow> bool" where
  "is_line_terminator c = (c = CHR 0x0A \<or> c = CHR 0x0D)"

text \<open>
  \<open>MACHINE_NAME_SUFFIX_RE = /^(.+)-(\d+)$/\<close>, tried the way the regular expression
  engine does: the greedy group \<open>(.+)\<close> takes the longest prefix first and backs off one
  character at a time; after it must come a hyphen and one or more digits up to the end.
  The result is group 1 of the first match.
\<close>

fun suffix_re_from :: "nat \<Rightarrow> string \<Rightarrow> string option" where
  "suffix_re_from 0 name = None"
| "suffix_re_from (Suc k) name =
     (if list_all (\<lambda>c. \<not> is_line_terminator c) (take (Suc k) name) \<and>
         (case drop (Suc k) name of
            [] \<Rightarrow> False
          | c # ds \<Rightarrow> c = CHR ''-'' \<and> ds \<noteq> [] \<and> list_all is_digit ds)
      then Some (take (Suc k) name)
      else suffix_re_from k name)"

definition MACHINE_NAME_SUFFIX_RE :: "string \<Rightarrow> string option" where
  "MACHINE_NAME_SUFFIX_RE name = suffix_re_from (length name) name"

text \<open>\<open>getMachineName\<close>: the host name without a trailing \<open>.local\<close>.\<close>

definition getMachineName :: "string \<Rightarrow> string" where
  "getMachineName hostname =
     (if 6 \<le> length hostname \<and> drop (length hostname - 6) hostname = ''.local''
      then take (length hostname - 6) hostname
      else hostname)"

text \<open>A number in a template literal: its decimal digits.\<close>

fun decimal :: "nat \<Rightarrow> string" where
  "decimal n =
     (if n < 10 then [''0123456789'' ! n]
      else decimal (n div 10) @ [''0123456789'' ! (n mod 10)])"

declare decimal.simps [simp del]

text \<open>The filter that selects \<open>ownMachines\<close>.\<close>

definition own_machine :: "string \<Rightarrow> Machine \<Rightarrow> bool" where
  "own_machine baseName m =
     (if m_name m = baseName then True
      else MACHINE_NAME_SUFFIX_RE (m_name m) = Some baseName)"

text \<open>
  What \<open>findOrCreateMachine\<close> does with the record store: it returns a listed machine as
  it is, or asks for an update of a machine's forward URL, or registers a new machine.
\<close>

datatype resolution =
    Reused Machine
  | Updated string string
  | Registered string string string

text \<open>
  \<open>findOrCreateMachine\<close>. \<open>machines\<close> is what \<open>fetchMachines(endpointId)\<close> returned
  and \<open>hostname\<close> what \<open>hostname()\<close> returned.
\<close>

definition findOrCreateMachine ::
  "Machine list \<Rightarrow> string \<Rightarrow> string \<Rightarrow> string \<Rightarrow> string option \<Rightarrow> resolution" where
  "findOrCreateMachine machines hostname endpointId forwardUrl nameOverride =
     (let baseName = (case nameOverride of None \<Rightarrow> getMachineName hostname | Some n \<Rightarrow> n);
          ownMachines = filter (own_machine baseName) machines
      in case find (\<lambda>m. m_status m = ''offline'') ownMachines of
           Some offlineMachine \<Rightarrow>
             if m_forwardUrl offlineMachine \<noteq> forwardUrl
             then Updated (m_id offlineMachine) forwardUrl
             else Reused offlineMachine
         | None \<Rightarrow>
             let nextName =
                   (if length ownMachines > 0
                    then baseName @ ''-'' @ decimal (length ownMachines + 1)
                    else baseName)
             in Registered endpointId nextName forwardUrl)"

text \<open>
  What the resolver's description calls a name of the form \<open>base-N\<close>: the base name, a
  hyphen, and one or more decimal digits.
\<close>

definition base_dash_number :: "string \<Rightarrow> string \<Rightarrow> bool" where
  "base_dash_number baseName name =
     (length baseName < length name \<and>
      take (length baseName) name = baseName \<and>
      (case drop (length baseName) name of
         [] \<Rightarrow> False
       | c # ds \<Rightarrow> c = CHR ''-'' \<and> ds \<noteq> [] \<and> list_all is_digit ds))"

section \<open>Client connection managers: what happens on close\<close>

text \<open>
  The viewer hook \<open>useViewerWebSocket\<close>: the \<open>connected\<close> flag, the socket reference and
  the pending reconnect timer (its delay in milliseconds).
\<close>

record ViewerHook =
  connected :: bool
  wsRef :: "nat option"
  reconnectTimeoutRef :: "nat option"

text \<open>\<open>connect\<close> opens a socket (identity \<open>ws\<close>) and stores it.\<close>

definition viewer_connect :: "ViewerHook \<Rightarrow> nat \<Rightarrow> ViewerHook" where
  "viewer_connect h ws = h\<lparr>wsRef := Some ws\<rparr>"

definition viewer_onopen :: "ViewerHook \<Rightarrow> ViewerHook" where
  "viewer_onopen h = h\<lparr>connected := True\<rparr>"

text \<open>\<open>ws.onclose\<close>: the delay passed to \<open>setTimeout\<close> is the literal 3000.\<close>

definition viewer_onclose :: "ViewerHook \<Rightarrow> ViewerHook" where
  "viewer_onclose h = h\<lparr>connected := False, wsRef := None, reconnectTimeoutRef := Some 3000\<rparr>"

text \<open>
  The monitor screen of the machine client: its \<open>connected\<close> flag and status line. Each
  listener returns the new state and the delays of the timers it schedules.
\<close>

record MonitorScreen =
  mon_connected :: bool
  wsStatus :: string

definition monitor_onopen :: "MonitorScreen \<Rightarrow> MonitorScreen \<times> nat list" where
  "monitor_onopen m = (m\<lparr>mon_connected := True, wsStatus := ''connected''\<rparr>, [])"

definition monitor_onclose :: "MonitorScreen \<Rightarrow> MonitorScreen \<times> nat list" where
  "monitor_onclose m = (m\<lparr>mon_connected := False, wsStatus := ''disconnected''\<rparr>, [])"

definition monitor_onerror :: "MonitorScreen \<Rightarrow> MonitorScreen \<times> nat list" where
  "monitor_onerror m = (m\<lparr>wsStatus := ''connection error''\<rparr>, [])"

text \<open>
  What happens to the viewer hook over time: \<open>connect\<close> runs (at mount, and when the
  reconnect timer fires), the socket opens, the socket closes.
\<close>

datatype viewer_event = Connects nat | Opens | Closes

fun viewer_step :: "ViewerHook \<Rightarrow> viewer_event \<Rightarrow> ViewerHook" where
  "viewer_step h (Connects ws) = viewer_connect h ws"
| "viewer_step h Opens = viewer_onopen h"
| "viewer_step h Closes = viewer_onclose h"

definition viewer_run :: "ViewerHook \<Rightarrow> viewer_event list \<Rightarrow> ViewerHook" where
  "viewer_run h evs = foldl viewer_step h evs"

text \<open>
  The reconnect delay claim C8 describes, after \<open>n\<close> consecutive failures: it starts at
  one time unit, doubles on each consecutive failure and is capped at 30 units.
\<close>

definition claimed_backoff :: "nat \<Rightarrow> nat \<Rightarrow> nat" where
  "claimed_backoff u n = min (u * 2 ^ n) (30 * u)"

section \<open>Auxiliary notions for the proofs\<close>

text \<open>The webhook sends of one fan-out over a list of sockets, in order.\<close>

definition webhook_sends :: "BroadcastPayload \<Rightarrow> WebSocket list \<Rightarrow> (nat \<times> wire) list" where
  "webhook_sends payload wss =
     concat (map (\<lambda>ws. case delivery_for payload ws of
                         None \<Rightarrow> []
                       | Some d \<Rightarrow> [(ws_id ws, stringify_object (webhook_literal payload d))]) wss)"

text \<open>Reading a run of decimal digits back as a number.\<close>

definition digit_value :: "char \<Rightarrow> nat" where
  "digit_value c = length (takeWhile (\<lambda>d. d \<noteq> c) ''0123456789'')"

definition number_of :: "string \<Rightarrow> nat" where
  "number_of ds = foldl (\<lambda>a c. 10 * a + digit_value c) 0 ds"

text \<open>Position \<open>j\<close> is where group 1 of the suffix pattern can end.\<close>

definition match_at :: "nat \<Rightarrow> string \<Rightarrow> bool" where
  "match_at j name =
     (list_all (\<lambda>c. \<not> is_line_terminator c) (take j name) \<and>
      (case drop j name of
         [] \<Rightarrow> False
       | c # ds \<Rightarrow> c = CHR ''-'' \<and> ds \<noteq> [] \<and> list_all is_digit ds))"

section \<open>Scenarios\<close>

text \<open>Small concrete actors and requests, used to exercise the theorems below.\<close>

definition machine_socket :: "nat \<Rightarrow> string \<Rightarrow> string \<Rightarrow> WebSocket" where
  "machine_socket i mid mname =
     \<lparr>ws_id = i,
      attachment = Some \<lparr>machineId = Some mid, machineName = Some mname,
                         role = ''machine'', userId = ''u1''\<rparr>\<rparr>"

definition viewer_socket :: "nat \<Rightarrow> WebSocket" where
  "viewer_socket i =
     \<lparr>ws_id = i,
      attachment = Some \<lparr>machineId = None, machineName = None,
                         role = ''viewer'', userId = ''u1''\<rparr>\<rparr>"

definition actor_with :: "WebSocket list \<Rightarrow> EndpointDO" where
  "actor_with wss = \<lparr>sockets = wss, sent = [], closed = [], next_id = length wss\<rparr>"

definition event_payload :: "(string \<rightharpoonup> string) \<Rightarrow> BroadcastPayload" where
  "event_payload ds =
     \<lparr>body = Some ''{}'', contentType = Some ''application/json'',
      createdAt = ''2026-02-19T00:00:00.000Z'', deliveries = ds, eventId = ''e1'',
      headers = ''{}'', http_method = ''POST'', query = None, sourceIp = None\<rparr>"

definition report_text :: wire where
  "report_text =
     Wire_json (JObject [(''type'', JString ''delivery-report''),
                         (''eventId'', JString ''e1''),
                         (''deliveryId'', JString ''d1''),
                         (''status'', JString ''delivered''),
                         (''responseStatus'', JNumber 200)])"

definition three_sockets :: EndpointDO where
  "three_sockets =
     actor_with [viewer_socket 0, machine_socket 1 ''m1'' ''Box'', machine_socket 2 ''m2'' ''Mac'']"

definition round_trip_report :: wire where
  "round_trip_report =
     Wire_json (JObject [(''type'', JString ''delivery-report''),
                         (''eventId'', JString ''e1''),
                         (''deliveryId'', JString ''d1''),
                         (''status'', JString ''delivered''),
                         (''responseStatus'', JNumber 200),
                         (''responseBody'', JString ''ok''),
                         (''error'', JNull),
                         (''duration'', JNumber 12)])"

definition viewer_and_machine :: EndpointDO where
  "viewer_and_machine = actor_with [viewer_socket 0, machine_socket 1 ''m1'' ''Box'']"

definition unnamed_machine_socket :: "nat \<Rightarrow> string \<Rightarrow> WebSocket" where
  "unnamed_machine_socket i mid =
     \<lparr>ws_id = i,
      attachment = Some \<lparr>machineId = Some mid, machineName = None,
                         role = ''machine'', userId = ''u1''\<rparr>\<rparr>"

definition viewer_query :: UpgradeQuery where
  "viewer_query =
     \<lparr>q_role = Some ''viewer'', q_machineId = None, q_machineName = None,
      q_userId = Some ''u1''\<rparr>"

definition two_machines :: EndpointDO where
  "two_machines = actor_with [machine_socket 0 ''m1'' ''Box'', machine_socket 1 ''m2'' ''Mac'']"

definition later_events :: "event list" where
  "later_events =
     [Broadcast (event_payload [''m1'' \<mapsto> ''d1'']),
      Message (machine_socket 0 ''m1'' ''Box'') (Text report_text),
      Upgrade viewer_query,
      Close (machine_socket 0 ''m1'' ''Box'') 1000 '''']"

definition machine_record :: "string \<Rightarrow> string \<Rightarrow> string \<Rightarrow> string \<Rightarrow> Machine" where
  "machine_record i n st url =
     \<lparr>m_endpointId = ''ep1'', m_forwardUrl = url, m_id = i, m_name = n, m_status = st\<rparr>"

definition box_online :: Machine where
  "box_online = machine_record ''1'' ''box'' ''online'' ''http://localhost:3000''"

definition box2_offline :: Machine where
  "box2_offline = machine_record ''2'' ''box-2'' ''offline'' ''http://localhost:4000''"

definition box2_online :: Machine where
  "box2_online = machine_record ''2'' ''box-2'' ''online'' ''http://localhost:4000''"

definition laptop_offline :: Machine where
  "laptop_offline = machine_record ''3'' ''laptop'' ''offline'' ''http://localhost:3000''"

definition unmounted_hook :: ViewerHook where
  "unmounted_hook = \<lparr>connected = False, wsRef = None, reconnectTimeoutRef = None\<rparr>"

definition connecting_monitor :: MonitorScreen where
  "connecting_monitor = \<lparr>mon_connected = False, wsStatus = ''connecting...''\<rparr>"

section \<open>Basic facts about sending\<close>

lemma send_each_eq:
  "send_each wss message s = s\<lparr>sent := sent s @ map (\<lambda>ws. (ws_id ws, message)) wss\<rparr>"
  by (induction wss arbitrary: s) (simp_all add: ws_send_def)

lemma getMachineWebSockets_sent [simp]:
  "getMachineWebSockets (s\<lparr>sent := x\<rparr>) = getMachineWebSockets s"
  by (simp add: getMachineWebSockets_def)

lemma getViewerWebSockets_sent [simp]:
  "getViewerWebSockets (s\<lparr>sent := x\<rparr>) = getViewerWebSockets s"
  by (simp add: getViewerWebSockets_def)

lemma broadcastToViewers_eq:
  "broadcastToViewers s message =
     s\<lparr>sent := sent s @ map (\<lambda>ws. (ws_id ws, message)) (getViewerWebSockets s)\<rparr>"
  by (simp add: broadcastToViewers_def send_each_eq)

lemma broadcastToMachines_eq:
  "broadcastToMachines s message (Some e) =
     s\<lparr>sent := sent s @ map (\<lambda>ws. (ws_id ws, message))
        (filter (\<lambda>ws. ws_id ws \<noteq> ws_id e) (getMachineWebSockets s))\<rparr>"
  by (simp add: broadcastToMachines_def send_each_eq)

section \<open>Event fan-out\<close>

lemma broadcast_loop_eq:
  "list_all (\<lambda>ws. attachment ws \<noteq> None) wss \<Longrightarrow>
   broadcast_loop payload wss s =
     (s\<lparr>sent := sent s @ webhook_sends payload wss\<rparr>, Returned ())"
proof (induction wss arbitrary: s)
  case Nil
  then show ?case by (simp add: webhook_sends_def)
next
  case (Cons ws wss)
  then obtain att where att: "attachment ws = Some att" by auto
  from Cons have IH: "\<And>s. broadcast_loop payload wss s =
     (s\<lparr>sent := sent s @ webhook_sends payload wss\<rparr>, Returned ())" by simp
  show ?case
    by (simp add: att IH webhook_sends_def delivery_for_def ws_send_def Let_def)
qed

lemma machines_have_attachment:
  "list_all (\<lambda>ws. attachment ws \<noteq> None) (getMachineWebSockets s)"
  by (auto simp: getMachineWebSockets_def has_role_def list_all_iff split: option.splits)

text \<open>
  The fan-out never throws; it appends the webhook sends to the log and returns the number
  of machine sockets.
\<close>

lemma handleBroadcast_eq:
  "handleBroadcast s payload =
     (s\<lparr>sent := sent s @ webhook_sends payload (getMachineWebSockets s)\<rparr>,
      Returned (length (getMachineWebSockets s)))"
  by (simp add: handleBroadcast_def Let_def broadcast_loop_eq [OF machines_have_attachment])

text \<open>
  For a delivery id that is a string, the text sent is the message of the interface
  \<open>WebhookEventMessage\<close>.
\<close>

lemma webhook_literal_string:
  "stringify_object (webhook_literal payload (JS_string d)) =
     JSON_stringify (WebhookEventMessage payload d)"
  by (simp add: stringify_object_def webhook_literal_def WebhookEventMessage_def)

text \<open>
  Claim C1: the value \<open>handleBroadcast\<close> returns is the count of machines the fan-out
  attempted to send to, so a connected machine whose id is absent from the deliveries map is
  not counted. The source returns \<open>machines.length\<close> under the key \<open>sent\<close>: with one
  machine \<open>m1\<close> connected and an empty deliveries map, nothing is sent and the value
  returned is 1.
\<close>

theorem handleBroadcast_counts_machine_without_delivery:
  "handleBroadcast (actor_with [machine_socket 0 ''m1'' ''Box'']) (event_payload Map.empty) =
     (actor_with [machine_socket 0 ''m1'' ''Box''], Returned 1)"
  by (simp add: handleBroadcast_eq webhook_sends_def delivery_for_def getMachineWebSockets_def
      has_role_def actor_with_def machine_socket_def event_payload_def get_member_def
      Object_prototype_functions_def)

section \<open>Inbound messages\<close>

text \<open>
  What the message handler does with everything that is not a delivery report: the state
  after the call is the state before it (nothing is sent, nothing is closed). For a
  non-string and for invalid JSON the handler returns. For valid JSON of another type it
  returns too, except for the JSON text \<open>null\<close>, where reading \<open>parsed.type\<close> throws.
\<close>

lemma webSocketMessage_drops_malformed:
  "webSocketMessage s ws ArrayBuffer = (s, Returned ()) \<and>
   (JSON_parse t = Inl e \<longrightarrow> webSocketMessage s ws (Text t) = (s, Returned ())) \<and>
   (JSON_parse t' = Inr v \<and> field v ''type'' \<noteq> Some (JString ''delivery-report'') \<longrightarrow>
      webSocketMessage s ws (Text t') =
        (s, if v = JNull then Thrown TypeError else Returned ()))"
  by (cases v) (auto simp: webSocketMessage_def)

lemma webSocketMessage_drops_malformed_examples:
  "webSocketMessage (actor_with [machine_socket 0 ''m1'' ''Box'']) (machine_socket 0 ''m1'' ''Box'')
      (Text (Wire_other ''{oops'')) =
     (actor_with [machine_socket 0 ''m1'' ''Box''], Returned ()) \<and>
   webSocketMessage (actor_with [machine_socket 0 ''m1'' ''Box'']) (machine_socket 0 ''m1'' ''Box'')
      (Text (Wire_json (JObject [(''type'', JString ''ping'')]))) =
     (actor_with [machine_socket 0 ''m1'' ''Box''], Returned ())"
  using webSocketMessage_drops_malformed
    [of "actor_with [machine_socket 0 ''m1'' ''Box'']" "machine_socket 0 ''m1'' ''Box''"
        "Wire_other ''{oops''" SyntaxError
        "Wire_json (JObject [(''type'', JString ''ping'')])"
        "JObject [(''type'', JString ''ping'')]"]
  by simp

text \<open>
  Claim C9: an inbound message that is not a string, or is not valid JSON, or does not have
  type \<open>delivery-report\<close>, is dropped silently: no broadcast, no state change, no close,
  and the handler returns. The source reads \<open>parsed.type\<close> after the \<open>try\<close> block
  that guards \<open>JSON.parse\<close>: the text \<open>null\<close> is valid JSON without that type, and for it
  the read throws a TypeError out of the handler instead of returning. Nothing is sent or
  closed before the throw.
\<close>

theorem webSocketMessage_throws_on_null:
  "JSON_parse (Wire_json JNull) = Inr JNull \<and>
   field JNull ''type'' \<noteq> Some (JString ''delivery-report'') \<and>
   webSocketMessage (actor_with [machine_socket 0 ''m1'' ''Box'']) (machine_socket 0 ''m1'' ''Box'')
      (Text (Wire_json JNull)) =
     (actor_with [machine_socket 0 ''m1'' ''Box''], Thrown TypeError)"
  by (simp add: webSocketMessage_def)

section \<open>Delivery reports\<close>

lemma defined_props_absent:
  "k \<notin> fst ` set kvs \<Longrightarrow> map_of (defined_props kvs) k = None"
  by (induction kvs rule: defined_props.induct) auto

lemma field_defined_props:
  "distinct (map fst kvs) \<Longrightarrow>
   map_of (defined_props kvs) k = Option.bind (map_of kvs k) (\<lambda>v. v)"
  by (induction kvs rule: defined_props.induct) (auto simp: defined_props_absent)

lemma DeliveryResultMessage_keys:
  "distinct (map fst (DeliveryResultMessage parsed att))"
  by (simp add: DeliveryResultMessage_def)

lemma delivery_report_keys:
  "distinct (map fst (delivery_report webhookMsg result))"
  by (simp add: delivery_report_def)

lemma DeliveryResultMessage_fields:
  "field (JObject (defined_props (DeliveryResultMessage parsed att))) ''type'' =
     Some (JString ''delivery-result'')"
  "field (JObject (defined_props (DeliveryResultMessage parsed att))) ''machineId'' =
     Some (JString (nullish_or (machineId att) ''''))"
  "field (JObject (defined_props (DeliveryResultMessage parsed att))) ''machineName'' =
     Some (JString (nullish_or (machineName att) ''''))"
  "field (JObject (defined_props (DeliveryResultMessage parsed att))) ''eventId'' =
     field parsed ''eventId''"
  "field (JObject (defined_props (DeliveryResultMessage parsed att))) ''deliveryId'' =
     field parsed ''deliveryId''"
  "field (JObject (defined_props (DeliveryResultMessage parsed att))) ''status'' =
     field parsed ''status''"
  "field (JObject (defined_props (DeliveryResultMessage parsed att))) ''responseStatus'' =
     field parsed ''responseStatus''"
  "field (JObject (defined_props (DeliveryResultMessage parsed att))) ''responseBody'' =
     field parsed ''responseBody''"
  "field (JObject (defined_props (DeliveryResultMessage parsed att))) ''error'' =
     field parsed ''error''"
  "field (JObject (defined_props (DeliveryResultMessage parsed att))) ''duration'' =
     field parsed ''duration''"
  by (simp_all add: field_defined_props [OF DeliveryResultMessage_keys])
     (simp_all add: DeliveryResultMessage_def)

lemma received_map_distinct:
  "distinct (map ws_id wss) \<Longrightarrow>
   received (map (\<lambda>w. (ws_id w, m)) wss) i = (if i \<in> ws_id ` set wss then [m] else [])"
  by (induction wss) (auto simp: received_def)

lemma received_append: "received (xs @ ys) i = received xs i @ received ys i"
  by (simp add: received_def)

lemma sent_since_append [simp]: "sent_since s (s\<lparr>sent := sent s @ new\<rparr>) = new"
  by (simp add: sent_since_def)

lemma webSocketMessage_report_eq:
  assumes "JSON_parse t = Inr parsed"
    and "field parsed ''type'' = Some (JString ''delivery-report'')"
    and "attachment ws = Some att"
  shows "webSocketMessage s ws (Text t) =
     (s\<lparr>sent := sent s @
         map (\<lambda>v. (ws_id v, stringify_object (DeliveryResultMessage parsed att)))
           (getViewerWebSockets s) @
         map (\<lambda>m. (ws_id m, stringify_object (DeliveryResultMessage parsed att)))
           (filter (\<lambda>m. ws_id m \<noteq> ws_id ws) (getMachineWebSockets s))\<rparr>,
      Returned ())"
proof -
  from assms(2) have "parsed \<noteq> JNull" by auto
  then have "get_prop parsed ''type'' = Inr (field parsed ''type'')"
    by (cases parsed) simp_all
  with assms show ?thesis
    by (simp add: webSocketMessage_def Let_def broadcastToViewers_eq broadcastToMachines_eq)
qed

lemma id_in_filter:
  assumes "distinct (map ws_id wss)" and "w \<in> set wss"
  shows "ws_id w \<in> ws_id ` set (filter P wss) \<longleftrightarrow> P w"
proof
  assume "ws_id w \<in> ws_id ` set (filter P wss)"
  then obtain x where x: "x \<in> set wss" "P x" "ws_id x = ws_id w" by auto
  from assms(1) have "inj_on ws_id (set wss)" by (simp add: distinct_map)
  with x(1,3) assms(2) have "x = w" by (auto dest: inj_onD)
  with x(2) show "P w" by simp
next
  assume "P w"
  with assms(2) show "ws_id w \<in> ws_id ` set (filter P wss)" by auto
qed

text \<open>
  Claim C5: a delivery report received on a machine's socket makes the handler send one
  delivery-result text, carrying the reporter's machine id and name from its attachment and
  the report's fields, to every connected viewer and to every connected machine except the
  reporter: each such socket is sent exactly that one text, every other socket nothing,
  however many machines are connected.
\<close>

theorem delivery_report_broadcast_once:
  assumes "JSON_parse t = Inr parsed"
    and "field parsed ''type'' = Some (JString ''delivery-report'')"
    and "attachment ws = Some att"
    and "distinct (map ws_id (sockets s))"
    and "w \<in> set (sockets s)"
  shows "snd (webSocketMessage s ws (Text t)) = Returned () \<and>
    received (sent_since s (fst (webSocketMessage s ws (Text t)))) (ws_id w) =
      (if has_role ''viewer'' w \<or> (has_role ''machine'' w \<and> ws_id w \<noteq> ws_id ws)
       then [stringify_object (DeliveryResultMessage parsed att)] else []) \<and>
    stringify_object (DeliveryResultMessage parsed att) =
      Wire_json (JObject (defined_props (DeliveryResultMessage parsed att))) \<and>
    field (JObject (defined_props (DeliveryResultMessage parsed att))) ''type'' =
      Some (JString ''delivery-result'') \<and>
    field (JObject (defined_props (DeliveryResultMessage parsed att))) ''machineId'' =
      Some (JString (nullish_or (machineId att) '''')) \<and>
    field (JObject (defined_props (DeliveryResultMessage parsed att))) ''machineName'' =
      Some (JString (nullish_or (machineName att) '''')) \<and>
    list_all (\<lambda>k. field (JObject (defined_props (DeliveryResultMessage parsed att))) k =
                   field parsed k)
      [''eventId'', ''deliveryId'', ''status'', ''responseStatus'', ''responseBody'',
       ''error'', ''duration'']"
proof -
  let ?m = "stringify_object (DeliveryResultMessage parsed att)"
  let ?others = "filter (\<lambda>m. ws_id m \<noteq> ws_id ws) (getMachineWebSockets s)"
  have dv: "distinct (map ws_id (getViewerWebSockets s))"
    using assms(4) by (simp add: getViewerWebSockets_def distinct_map_filter)
  have dm: "distinct (map ws_id ?others)"
    using assms(4) by (simp add: getMachineWebSockets_def distinct_map_filter)
  have not_both: "\<not> (has_role ''viewer'' w \<and> has_role ''machine'' w)"
    by (auto simp: has_role_def split: option.splits)
  have v: "ws_id w \<in> ws_id ` set (getViewerWebSockets s) \<longleftrightarrow> has_role ''viewer'' w"
    unfolding getViewerWebSockets_def by (rule id_in_filter [OF assms(4,5)])
  have "?others = filter (\<lambda>m. has_role ''machine'' m \<and> ws_id m \<noteq> ws_id ws) (sockets s)"
    by (simp add: getMachineWebSockets_def conj_commute)
  then have m: "ws_id w \<in> ws_id ` set ?others
      \<longleftrightarrow> has_role ''machine'' w \<and> ws_id w \<noteq> ws_id ws"
    using id_in_filter [OF assms(4,5)] by simp
  have eq: "sent_since s (fst (webSocketMessage s ws (Text t))) =
      map (\<lambda>v. (ws_id v, ?m)) (getViewerWebSockets s) @ map (\<lambda>m. (ws_id m, ?m)) ?others"
    by (simp add: webSocketMessage_report_eq [OF assms(1-3)])
  have r: "received (sent_since s (fst (webSocketMessage s ws (Text t)))) (ws_id w) =
      (if has_role ''viewer'' w \<or> (has_role ''machine'' w \<and> ws_id w \<noteq> ws_id ws)
       then [?m] else [])"
    unfolding eq received_append received_map_distinct [OF dv] received_map_distinct [OF dm] v m
    using not_both by auto
  have o: "snd (webSocketMessage s ws (Text t)) = Returned ()"
    by (simp add: webSocketMessage_report_eq [OF assms(1-3)])
  have f: "stringify_object (DeliveryResultMessage parsed att) =
      Wire_json (JObject (defined_props (DeliveryResultMessage parsed att)))"
    by (simp add: stringify_object_def JSON_stringify_def)
  have l: "list_all (\<lambda>k. field (JObject (defined_props (DeliveryResultMessage parsed att))) k =
                   field parsed k)
      [''eventId'', ''deliveryId'', ''status'', ''responseStatus'', ''responseBody'',
       ''error'', ''duration'']"
    by (simp only: list.pred_inject DeliveryResultMessage_fields simp_thms)
  show ?thesis
    using r o f l DeliveryResultMessage_fields(1-3) by blast
qed

theorem delivery_report_broadcast_once_witness:
  "received (sent_since three_sockets
       (fst (webSocketMessage three_sockets (machine_socket 1 ''m1'' ''Box'') (Text report_text))))
     0 =
   [Wire_json (JObject [(''type'', JString ''delivery-result''),
                        (''eventId'', JString ''e1''),
                        (''deliveryId'', JString ''d1''),
                        (''machineId'', JString ''m1''),
                        (''machineName'', JString ''Box''),
                        (''status'', JString ''delivered''),
                        (''responseStatus'', JNumber 200)])] \<and>
   received (sent_since three_sockets
       (fst (webSocketMessage three_sockets (machine_socket 1 ''m1'' ''Box'') (Text report_text))))
     1 = []"
  using delivery_report_broadcast_once
    [of report_text
        "JObject [(''type'', JString ''delivery-report''),
                         (''eventId'', JString ''e1''),
                         (''deliveryId'', JString ''d1''),
                         (''status'', JString ''delivered''),
                         (''responseStatus'', JNumber 200)]"
        "machine_socket 1 ''m1'' ''Box''"
        "\<lparr>machineId = Some ''m1'', machineName = Some ''Box'',
                         role = ''machine'', userId = ''u1''\<rparr>"
        three_sockets "viewer_socket 0"]
    delivery_report_broadcast_once
    [of report_text
        "JObject [(''type'', JString ''delivery-report''),
                         (''eventId'', JString ''e1''),
                         (''deliveryId'', JString ''d1''),
                         (''status'', JString ''delivered''),
                         (''responseStatus'', JNumber 200)]"
        "machine_socket 1 ''m1'' ''Box''"
        "\<lparr>machineId = Some ''m1'', machineName = Some ''Box'',
                         role = ''machine'', userId = ''u1''\<rparr>"
        three_sockets "machine_socket 1 ''m1'' ''Box''"]
  by (simp add: report_text_def three_sockets_def actor_with_def machine_socket_def
      viewer_socket_def has_role_def stringify_object_def JSON_stringify_def
      DeliveryResultMessage_def)

section \<open>Round trip of a webhook\<close>

lemma WebhookEventMessage_fields:
  "field (WebhookEventMessage payload did) ''type'' = Some (JString ''webhook'')"
  "field (WebhookEventMessage payload did) ''eventId'' = Some (JString (eventId payload))"
  "field (WebhookEventMessage payload did) ''deliveryId'' = Some (JString did)"
  "WebhookEventMessage payload did \<noteq> JNull"
  by (simp_all add: WebhookEventMessage_def)

lemma delivery_report_fields:
  "field (JObject (defined_props (delivery_report webhookMsg result))) ''type'' =
     Some (JString ''delivery-report'')"
  "field (JObject (defined_props (delivery_report webhookMsg result))) ''eventId'' =
     field webhookMsg ''eventId''"
  "field (JObject (defined_props (delivery_report webhookMsg result))) ''deliveryId'' =
     field webhookMsg ''deliveryId''"
  by (simp_all add: field_defined_props [OF delivery_report_keys])
     (simp_all add: delivery_report_def)

lemma monitor_onmessage_webhook:
  "monitor_onmessage startTime now attempt
     (Text (JSON_stringify (WebhookEventMessage payload did))) =
   Returned [stringify_object
     (delivery_report (WebhookEventMessage payload did)
        (forwardWebhookLocally startTime now attempt))]"
proof -
  have "get_prop (WebhookEventMessage payload did) ''type'' = Inr (Some (JString ''webhook''))"
    by (simp add: WebhookEventMessage_def)
  then show ?thesis
    by (simp add: monitor_onmessage_def JSON_stringify_def)
qed

text \<open>
  Claim C6 (round trip): the fan-out sends a machine a webhook message with event id
  \<open>eventId payload\<close> and delivery id \<open>did\<close>; the machine client's listener forwards it
  locally and sends back one delivery report; on that report the actor sends every viewer a
  delivery-result message that carries the same event id and delivery id, whatever the
  local forward came to.
\<close>

theorem webhook_report_round_trip:
  assumes "attachment ws = Some att"
  shows
    "let webhook = WebhookEventMessage payload did;
         report = stringify_object
                    (delivery_report webhook (forwardWebhookLocally startTime now attempt));
         result = JObject (defined_props
                    (DeliveryResultMessage
                       (JObject (defined_props
                          (delivery_report webhook
                             (forwardWebhookLocally startTime now attempt))))
                       att))
     in monitor_onmessage startTime now attempt (Text (JSON_stringify webhook)) =
          Returned [report] \<and>
        webSocketMessage s ws (Text report) =
          (s\<lparr>sent := sent s @
              map (\<lambda>v. (ws_id v, Wire_json result)) (getViewerWebSockets s) @
              map (\<lambda>m. (ws_id m, Wire_json result))
                (filter (\<lambda>m. ws_id m \<noteq> ws_id ws) (getMachineWebSockets s))\<rparr>,
           Returned ()) \<and>
        field result ''type'' = Some (JString ''delivery-result'') \<and>
        field result ''eventId'' = Some (JString (eventId payload)) \<and>
        field result ''deliveryId'' = Some (JString did)"
proof -
  let ?w = "WebhookEventMessage payload did"
  let ?r = "delivery_report ?w (forwardWebhookLocally startTime now attempt)"
  let ?p = "JObject (defined_props ?r)"
  have parse: "JSON_parse (stringify_object ?r) = Inr ?p"
    by (simp add: stringify_object_def JSON_stringify_def)
  have ty: "field ?p ''type'' = Some (JString ''delivery-report'')"
    by (rule delivery_report_fields(1))
  have srv: "webSocketMessage s ws (Text (stringify_object ?r)) =
     (s\<lparr>sent := sent s @
         map (\<lambda>v. (ws_id v, stringify_object (DeliveryResultMessage ?p att)))
           (getViewerWebSockets s) @
         map (\<lambda>m. (ws_id m, stringify_object (DeliveryResultMessage ?p att)))
           (filter (\<lambda>m. ws_id m \<noteq> ws_id ws) (getMachineWebSockets s))\<rparr>,
      Returned ())"
    by (rule webSocketMessage_report_eq [OF parse ty assms])
  have e: "field (JObject (defined_props (DeliveryResultMessage ?p att))) ''eventId'' =
      Some (JString (eventId payload))"
    by (simp only: DeliveryResultMessage_fields(4) delivery_report_fields(2)
        WebhookEventMessage_fields(2))
  have d: "field (JObject (defined_props (DeliveryResultMessage ?p att))) ''deliveryId'' =
      Some (JString did)"
    by (simp only: DeliveryResultMessage_fields(5) delivery_report_fields(3)
        WebhookEventMessage_fields(3))
  show ?thesis
    unfolding Let_def
    using monitor_onmessage_webhook [of startTime now attempt payload did] srv e d
      DeliveryResultMessage_fields(1) [of ?p att]
    by (simp add: stringify_object_def JSON_stringify_def)
qed

theorem webhook_report_round_trip_witness:
  "monitor_onmessage 0 12 (Responded \<lparr>res_status = 200, res_text = Some ''ok''\<rparr>)
     (Text (JSON_stringify (WebhookEventMessage (event_payload [''m1'' \<mapsto> ''d1'']) ''d1''))) =
     Returned [round_trip_report] \<and>
   received (sent (fst (webSocketMessage three_sockets (machine_socket 1 ''m1'' ''Box'')
       (Text round_trip_report)))) 0 =
     [Wire_json (JObject [(''type'', JString ''delivery-result''),
                          (''eventId'', JString ''e1''),
                          (''deliveryId'', JString ''d1''),
                          (''machineId'', JString ''m1''),
                          (''machineName'', JString ''Box''),
                          (''status'', JString ''delivered''),
                          (''responseStatus'', JNumber 200),
                          (''responseBody'', JString ''ok''),
                          (''error'', JNull),
                          (''duration'', JNumber 12)])]"
  using webhook_report_round_trip
    [of "machine_socket 1 ''m1'' ''Box''"
        "\<lparr>machineId = Some ''m1'', machineName = Some ''Box'',
          role = ''machine'', userId = ''u1''\<rparr>"
        "event_payload [''m1'' \<mapsto> ''d1'']" "''d1''" 0 12
        "Responded \<lparr>res_status = 200, res_text = Some ''ok''\<rparr>" three_sockets]
  by (simp add: Let_def round_trip_report_def three_sockets_def actor_with_def
      machine_socket_def viewer_socket_def has_role_def stringify_object_def JSON_stringify_def
      DeliveryResultMessage_def delivery_report_def forwardWebhookLocally_def res_ok_def
      WebhookEventMessage_def event_payload_def getViewerWebSockets_def
      getMachineWebSockets_def received_def)

section \<open>Targets of the fan-out\<close>

lemma webhook_sends_mem:
  "(i, m) \<in> set (webhook_sends payload wss) \<longleftrightarrow>
   (\<exists>ws \<in> set wss. \<exists>d. ws_id ws = i \<and> delivery_for payload ws = Some d \<and>
      m = stringify_object (webhook_literal payload d))"
proof (induction wss)
  case Nil
  show ?case by (simp add: webhook_sends_def)
next
  case (Cons w wss)
  have step: "webhook_sends payload (w # wss) =
      (case delivery_for payload w of None \<Rightarrow> []
       | Some d \<Rightarrow> [(ws_id w, stringify_object (webhook_literal payload d))]) @
      webhook_sends payload wss"
    by (simp add: webhook_sends_def)
  show ?case
    unfolding step set_append Un_iff Cons.IH
    by (cases "delivery_for payload w") auto
qed

lemma delivery_for_Some:
  "delivery_for payload ws = Some d \<longleftrightarrow>
   (\<exists>att mid. attachment ws = Some att \<and> machineId att = Some mid \<and> mid \<noteq> [] \<and>
      d = get_member (deliveries payload) mid \<and> js_truthy d)"
proof (cases "attachment ws")
  case None
  then show ?thesis by (simp add: delivery_for_def)
next
  case (Some att)
  show ?thesis
  proof (cases "machineId att")
    case None
    with Some show ?thesis by (simp add: delivery_for_def)
  next
    case (Some mid)
    with \<open>attachment ws = Some att\<close> show ?thesis
      by (auto simp: delivery_for_def)
  qed
qed

text \<open>
  What one fan-out sends a registered socket: a webhook message if and only if the
  attachment has role machine, the machine id is non-empty, and the member read on the
  deliveries object for that id is truthy; the message is the webhook literal with the
  value read.
\<close>

lemma fanout_sends_iff:
  assumes "distinct (map ws_id (sockets s))" and "ws \<in> set (sockets s)"
  shows "(ws_id ws, m) \<in> set (sent_since s (fst (handleBroadcast s payload))) \<longleftrightarrow>
    (\<exists>att mid. attachment ws = Some att \<and> role att = ''machine'' \<and>
       machineId att = Some mid \<and> mid \<noteq> [] \<and>
       js_truthy (get_member (deliveries payload) mid) \<and>
       m = stringify_object (webhook_literal payload (get_member (deliveries payload) mid)))"
proof -
  have inj: "inj_on ws_id (set (sockets s))"
    using assms(1) by (simp add: distinct_map)
  have "(ws_id ws, m) \<in> set (sent_since s (fst (handleBroadcast s payload))) \<longleftrightarrow>
      (\<exists>w \<in> set (getMachineWebSockets s). \<exists>d. ws_id w = ws_id ws \<and>
         delivery_for payload w = Some d \<and> m = stringify_object (webhook_literal payload d))"
    by (simp add: handleBroadcast_eq webhook_sends_mem)
  also have "\<dots> \<longleftrightarrow> (has_role ''machine'' ws \<and>
      (\<exists>d. delivery_for payload ws = Some d \<and> m = stringify_object (webhook_literal payload d)))"
  proof
    assume "\<exists>w \<in> set (getMachineWebSockets s). \<exists>d. ws_id w = ws_id ws \<and>
         delivery_for payload w = Some d \<and> m = stringify_object (webhook_literal payload d)"
    then obtain w d where w: "w \<in> set (sockets s)" "has_role ''machine'' w" "ws_id w = ws_id ws"
      "delivery_for payload w = Some d" "m = stringify_object (webhook_literal payload d)"
      by (auto simp: getMachineWebSockets_def)
    from inj w(1,3) assms(2) have "w = ws" by (auto dest: inj_onD)
    with w show "has_role ''machine'' ws \<and>
      (\<exists>d. delivery_for payload ws = Some d \<and> m = stringify_object (webhook_literal payload d))"
      by auto
  next
    assume "has_role ''machine'' ws \<and>
      (\<exists>d. delivery_for payload ws = Some d \<and> m = stringify_object (webhook_literal payload d))"
    with assms(2) show "\<exists>w \<in> set (getMachineWebSockets s). \<exists>d. ws_id w = ws_id ws \<and>
         delivery_for payload w = Some d \<and> m = stringify_object (webhook_literal payload d)"
      by (auto simp: getMachineWebSockets_def)
  qed
  also have "\<dots> \<longleftrightarrow> (\<exists>att mid. attachment ws = Some att \<and> role att = ''machine'' \<and>
       machineId att = Some mid \<and> mid \<noteq> [] \<and>
       js_truthy (get_member (deliveries payload) mid) \<and>
       m = stringify_object (webhook_literal payload (get_member (deliveries payload) mid)))"
    unfolding delivery_for_Some has_role_def by (auto split: option.splits)
  finally show ?thesis .
qed

text \<open>
  For a machine id that names no member of \<open>Object.prototype\<close>, the member read is the
  lookup in the map: it is truthy exactly when the map holds a non-empty delivery id for
  the machine id, and the message then carries that delivery id.
\<close>

lemma get_member_plain:
  assumes "\<not> inherited_name k"
  shows "js_truthy (get_member own k) \<longleftrightarrow> (\<exists>d. own k = Some d \<and> d \<noteq> [])"
    and "own k = Some d \<Longrightarrow> get_member own k = JS_string d"
  using assms by (cases "own k"; simp add: get_member_def inherited_name_def)+

lemma fanout_sends_plain_id:
  assumes "distinct (map ws_id (sockets s))" and "ws \<in> set (sockets s)"
    and "attachment ws = Some att" and "machineId att = Some mid" and "\<not> inherited_name mid"
  shows "(ws_id ws, m) \<in> set (sent_since s (fst (handleBroadcast s payload))) \<longleftrightarrow>
    (role att = ''machine'' \<and> mid \<noteq> [] \<and>
     (\<exists>d. deliveries payload mid = Some d \<and> d \<noteq> [] \<and>
          m = JSON_stringify (WebhookEventMessage payload d)))"
  unfolding fanout_sends_iff [OF assms(1,2)]
  using assms(3,4) get_member_plain [OF assms(5), of "deliveries payload"]
  by (auto simp: webhook_literal_string)

lemma fanout_sends_plain_id_example:
  "(1, JSON_stringify (WebhookEventMessage (event_payload [''m1'' \<mapsto> ''d1'']) ''d1''))
     \<in> set (sent_since three_sockets
              (fst (handleBroadcast three_sockets (event_payload [''m1'' \<mapsto> ''d1''])))) \<and>
   (2, JSON_stringify (WebhookEventMessage (event_payload [''m1'' \<mapsto> ''d1'']) ''d1''))
     \<notin> set (sent_since three_sockets
              (fst (handleBroadcast three_sockets (event_payload [''m1'' \<mapsto> ''d1'']))))"
  using fanout_sends_plain_id
    [of three_sockets "machine_socket 1 ''m1'' ''Box''"
        "\<lparr>machineId = Some ''m1'', machineName = Some ''Box'',
          role = ''machine'', userId = ''u1''\<rparr>" "''m1''"
        "JSON_stringify (WebhookEventMessage (event_payload [''m1'' \<mapsto> ''d1'']) ''d1'')"
        "event_payload [''m1'' \<mapsto> ''d1'']"]
    fanout_sends_plain_id
    [of three_sockets "machine_socket 2 ''m2'' ''Mac''"
        "\<lparr>machineId = Some ''m2'', machineName = Some ''Mac'',
          role = ''machine'', userId = ''u1''\<rparr>" "''m2''"
        "JSON_stringify (WebhookEventMessage (event_payload [''m1'' \<mapsto> ''d1'']) ''d1'')"
        "event_payload [''m1'' \<mapsto> ''d1'']"]
  by (simp add: three_sockets_def actor_with_def machine_socket_def viewer_socket_def
      event_payload_def inherited_name_def Object_prototype_functions_def)


section \<open>Disconnect handling\<close>

lemma notify_offline_eq:
  "notify_offline s ws =
     s\<lparr>sent := sent s @
        (if offline_target ws
         then map (\<lambda>v. (ws_id v, status_text ''offline'' ws)) (getViewerWebSockets s)
         else [])\<rparr>"
  by (cases "attachment ws")
     (simp_all add: notify_offline_def offline_target_def status_text_def broadcastToViewers_eq)

lemma ws_close_sent [simp]: "sent (ws_close s ws code reason) = sent s"
  by (simp add: ws_close_def)

text \<open>
  Claim C2, as the code has it: each invocation of the close handler or of the error handler
  for a socket whose attachment has role machine and a non-empty machine id sends one
  offline machine-status message to every connected viewer; an invocation for any other
  socket sends none. The handlers decide from the attachment alone and keep no record of a
  socket already handled.
\<close>

theorem offline_notice_per_invocation:
  "sent_since s (webSocketClose s ws code reason) =
     (if offline_target ws
      then map (\<lambda>v. (ws_id v, status_text ''offline'' ws)) (getViewerWebSockets s)
      else []) \<and>
   sent_since s (webSocketError s ws) =
     (if offline_target ws
      then map (\<lambda>v. (ws_id v, status_text ''offline'' ws)) (getViewerWebSockets s)
      else []) \<and>
   is_offline_status (status_text ''offline'' ws)"
  by (cases "attachment ws")
     (simp_all add: webSocketClose_def webSocketError_def notify_offline_eq sent_since_def
        status_text_def JSON_stringify_def MachineStatusMessage_def)

text \<open>
  Claim C2 as stated (at most one offline broadcast per machine socket, even when both the
  close and a later error callback fire for it) fails: with one viewer and machine
  \<open>m1\<close> connected, a close followed by an error for the machine's socket sends the
  viewer the offline message twice.
\<close>

theorem close_then_error_notifies_twice:
  "received
     (sent (webSocketError
              (webSocketClose viewer_and_machine (machine_socket 1 ''m1'' ''Box'') 1006 '''')
              (machine_socket 1 ''m1'' ''Box'')))
     0 =
   [JSON_stringify (MachineStatusMessage ''m1'' ''Box'' ''offline''),
    JSON_stringify (MachineStatusMessage ''m1'' ''Box'' ''offline'')]"
  by (simp add: webSocketClose_def webSocketError_def notify_offline_eq offline_target_def
      status_text_def viewer_and_machine_def actor_with_def machine_socket_def
      viewer_socket_def getViewerWebSockets_def has_role_def ws_close_def received_def)

section \<open>Upgrade handling and the presence snapshot\<close>

lemma send_snapshot_eq:
  "send_snapshot server wss s =
     s\<lparr>sent := sent s @
        map (\<lambda>w. (ws_id server, status_text ''online'' w)) (filter named_machine wss)\<rparr>"
proof (induction wss arbitrary: s)
  case Nil
  show ?case by simp
next
  case (Cons w wss)
  show ?case
    by (cases "attachment w")
       (simp_all add: Cons.IH named_machine_def status_text_def ws_send_def)
qed

lemma status_text_online [simp]: "is_online_status (status_text ''online'' w)"
  by (cases "attachment w")
     (simp_all add: status_text_def JSON_stringify_def MachineStatusMessage_def)

lemma status_text_offline [simp]: "\<not> is_online_status (status_text ''offline'' w)"
  by (cases "attachment w")
     (simp_all add: status_text_def JSON_stringify_def MachineStatusMessage_def)

lemma webhook_not_online [simp]:
  "\<not> is_online_status (stringify_object (webhook_literal payload d))"
  by (cases d) (simp_all add: stringify_object_def JSON_stringify_def webhook_literal_def)

lemma delivery_result_not_online [simp]:
  "\<not> is_online_status (stringify_object (DeliveryResultMessage parsed att))"
  using DeliveryResultMessage_fields(1) [of parsed att]
  by (simp add: stringify_object_def JSON_stringify_def)

text \<open>The upgrade of a viewer\<close>

lemma viewer_upgrade_eq:
  assumes "q_role q = Some ''viewer''" and "truthy (q_userId q)"
  shows "handleWebSocketUpgrade s q =
     (s\<lparr>sockets := sockets s @
           [\<lparr>ws_id = next_id s,
             attachment = Some \<lparr>machineId = q_machineId q, machineName = q_machineName q,
                                role = ''viewer'', userId = nullish_or (q_userId q) ''''\<rparr>\<rparr>],
         next_id := Suc (next_id s),
         sent := sent s @
           map (\<lambda>w. (next_id s, status_text ''online'' w))
             (filter named_machine (getMachineWebSockets s))\<rparr>,
      101)"
proof -
  from assms(2) obtain u where u: "q_userId q = Some u" "u \<noteq> []"
    by (cases "q_userId q") auto
  show ?thesis
    by (simp add: handleWebSocketUpgrade_def Let_def assms(1) u send_snapshot_eq
        getMachineWebSockets_def has_role_def)
qed

lemma truthy_nullish: "nullish_or x [] \<noteq> [] \<longleftrightarrow> truthy x"
  by (cases x) simp_all

lemma handleWebSocketUpgrade_eq:
  "handleWebSocketUpgrade s q =
     (if \<not> (truthy (q_role q) \<and> truthy (q_userId q)) then (s, 400)
      else
        (s\<lparr>sockets := sockets s @
              [\<lparr>ws_id = next_id s,
                attachment = Some \<lparr>machineId = q_machineId q, machineName = q_machineName q,
                                   role = nullish_or (q_role q) '''',
                                   userId = nullish_or (q_userId q) ''''\<rparr>\<rparr>],
            next_id := Suc (next_id s),
            sent := sent s @
              (if q_role q = Some ''machine'' \<and> truthy (q_machineId q) \<and>
                  truthy (q_machineName q)
               then map (\<lambda>v. (ws_id v,
                           JSON_stringify
                             (MachineStatusMessage (nullish_or (q_machineId q) '''')
                                (nullish_or (q_machineName q) '''') ''online'')))
                      (getViewerWebSockets s)
               else []) @
              (if q_role q = Some ''viewer''
               then map (\<lambda>w. (next_id s, status_text ''online'' w))
                      (filter named_machine (getMachineWebSockets s))
               else [])\<rparr>,
         101))"
proof (cases "truthy (q_role q) \<and> truthy (q_userId q)")
  case False
  then show ?thesis
    by (simp add: handleWebSocketUpgrade_def Let_def truthy_nullish)
next
  case True
  then obtain r where r: "q_role q = Some r" "r \<noteq> []"
    by (cases "q_role q") auto
  from True have u: "nullish_or (q_userId q) [] \<noteq> []"
    by (simp add: truthy_nullish)
  show ?thesis
  proof (cases "r = ''machine''")
    case True
    with r u \<open>truthy (q_role q) \<and> truthy (q_userId q)\<close> show ?thesis
      by (simp add: handleWebSocketUpgrade_def Let_def broadcastToViewers_eq
          getViewerWebSockets_def has_role_def)
  next
    case False
    with r u \<open>truthy (q_role q) \<and> truthy (q_userId q)\<close> show ?thesis
      by (simp add: handleWebSocketUpgrade_def Let_def send_snapshot_eq
          getMachineWebSockets_def has_role_def)
  qed
qed

lemma received_Nil [simp]: "received [] v = []"
  by (simp add: received_def)

lemma received_other [simp]:
  "v \<noteq> i \<Longrightarrow> received (map (\<lambda>w. (i, f w)) wss) v = []"
  by (induction wss) (simp_all add: received_def)

lemma no_online_map:
  "(\<And>w. \<not> is_online_status (f w)) \<Longrightarrow>
   filter is_online_status (received (map (\<lambda>w. (g w, f w)) wss) v) = []"
  by (induction wss) (simp_all add: received_def)

lemma no_online_const:
  "\<not> is_online_status m \<Longrightarrow>
   filter is_online_status (received (map (\<lambda>w. (g w, m)) wss) v) = []"
  by (rule no_online_map)

lemma webhook_sends_no_online:
  "filter is_online_status (received (webhook_sends payload wss) v) = []"
proof (induction wss)
  case Nil
  show ?case by (simp add: webhook_sends_def received_def)
next
  case (Cons w wss)
  have step: "webhook_sends payload (w # wss) =
      (case delivery_for payload w of None \<Rightarrow> []
       | Some d \<Rightarrow> [(ws_id w, stringify_object (webhook_literal payload d))]) @
      webhook_sends payload wss"
    by (simp add: webhook_sends_def)
  show ?case
    unfolding step received_append filter_append Cons.IH
    by (cases "delivery_for payload w") (simp_all add: received_def)
qed

lemma webSocketMessage_sends:
  "\<exists>new. fst (webSocketMessage s ws message) = s\<lparr>sent := sent s @ new\<rparr> \<and>
         filter is_online_status (received new v) = []"
proof (cases "\<exists>t parsed att. message = Text t \<and> JSON_parse t = Inr parsed \<and>
    field parsed ''type'' = Some (JString ''delivery-report'') \<and> attachment ws = Some att")
  case True
  then obtain t parsed att where h: "message = Text t" "JSON_parse t = Inr parsed"
    "field parsed ''type'' = Some (JString ''delivery-report'')" "attachment ws = Some att"
    by blast
  show ?thesis
    unfolding h(1) webSocketMessage_report_eq [OF h(2-4)] fst_conv
    by (rule exI [where x = "map (\<lambda>v. (ws_id v, stringify_object (DeliveryResultMessage parsed att)))
           (getViewerWebSockets s) @
         map (\<lambda>m. (ws_id m, stringify_object (DeliveryResultMessage parsed att)))
           (filter (\<lambda>m. ws_id m \<noteq> ws_id ws) (getMachineWebSockets s))"])
       (simp add: received_append no_online_const)
next
  case False
  have "fst (webSocketMessage s ws message) = s"
  proof (cases message)
    case ArrayBuffer
    then show ?thesis by (simp add: webSocketMessage_def)
  next
    case (Text t)
    show ?thesis
    proof (cases "JSON_parse t")
      case (Inl e)
      with Text show ?thesis by (simp add: webSocketMessage_def)
    next
      case (Inr parsed)
      show ?thesis
      proof (cases "field parsed ''type'' = Some (JString ''delivery-report'')")
        case True
        with False Text Inr have "attachment ws = None" by (cases "attachment ws") auto
        moreover from True have "get_prop parsed ''type'' = Inr (field parsed ''type'')"
          by (cases parsed) simp_all
        ultimately show ?thesis using Text Inr True
          by (simp add: webSocketMessage_def)
      next
        case False
        then show ?thesis using Text Inr
          by (cases parsed) (simp_all add: webSocketMessage_def)
      qed
    qed
  qed
  then show ?thesis by (intro exI [where x = "[]"]) (simp add: received_def)
qed

lemma step_quiet:
  assumes "\<not> machine_upgrade e" and "v < next_id s"
  shows "next_id s \<le> next_id (step s e) \<and>
    (\<exists>new. sent (step s e) = sent s @ new \<and>
           filter is_online_status (received new v) = [])"
proof (cases e)
  case (Upgrade q)
  with assms(1) have nm: "q_role q \<noteq> Some ''machine''" by simp
  from assms(2) have ne: "v \<noteq> next_id s" by simp
  show ?thesis
  proof (cases "truthy (q_role q) \<and> truthy (q_userId q)")
    case False
    then have "step s e = s" by (simp add: Upgrade handleWebSocketUpgrade_eq)
    then show ?thesis by (simp add: received_def)
  next
    case True
    then show ?thesis
      using nm ne by (simp add: Upgrade handleWebSocketUpgrade_eq)
  qed
next
  case (Broadcast payload)
  show ?thesis
    by (simp add: Broadcast handleBroadcast_eq webhook_sends_no_online)
next
  case (Message ws message)
  from webSocketMessage_sends [of s ws message v]
  obtain new where "fst (webSocketMessage s ws message) = s\<lparr>sent := sent s @ new\<rparr>"
    "filter is_online_status (received new v) = []" by blast
  then show ?thesis by (simp add: Message)
next
  case (Close ws code reason)
  show ?thesis
    by (simp add: Close webSocketClose_def notify_offline_eq ws_close_def no_online_const)
next
  case (Error ws)
  show ?thesis
    by (simp add: Error webSocketError_def notify_offline_eq ws_close_def no_online_const)
qed

lemma run_quiet:
  "list_all (\<lambda>e. \<not> machine_upgrade e) evs \<Longrightarrow> v < next_id s \<Longrightarrow>
   \<exists>later. sent (run s evs) = sent s @ later \<and>
           filter is_online_status (received later v) = []"
proof (induction evs arbitrary: s)
  case Nil
  show ?case by (simp add: run_def received_def)
next
  case (Cons e evs)
  from Cons.prems have e: "\<not> machine_upgrade e" and evs: "list_all (\<lambda>e. \<not> machine_upgrade e) evs"
    by simp_all
  from step_quiet [OF e Cons.prems(2)] obtain new where
    n: "next_id s \<le> next_id (step s e)" "sent (step s e) = sent s @ new"
       "filter is_online_status (received new v) = []" by blast
  from n(1) Cons.prems(2) have "v < next_id (step s e)" by simp
  from Cons.IH [OF evs this] obtain later where
    l: "sent (run (step s e) evs) = sent (step s e) @ later"
       "filter is_online_status (received later v) = []" by blast
  have "run s (e # evs) = run (step s e) evs" by (simp add: run_def)
  with n l show ?case
    by (intro exI [where x = "new @ later"]) (simp add: received_append)
qed

lemma received_fresh:
  "list_all (\<lambda>e. fst e < n) log \<Longrightarrow> received log n = []"
  by (induction log) (auto simp: received_def)

lemma received_same:
  "received (map (\<lambda>w. (i, f w)) wss) i = map f wss"
  by (induction wss) (simp_all add: received_def)

text \<open>
  Claim C4, as the code has it: when a viewer connects, the upgrade handler registers a new
  socket for it and sends that socket, and only it, one synthetic online machine-status
  message for every registered machine socket that has a non-empty machine id and a
  non-empty machine name, in registry order. Nothing was sent to that socket before, so the
  snapshot precedes every live message; and as long as no further machine connects,
  whatever else happens (fan-outs, delivery reports, disconnects, other viewers joining),
  the later messages to this viewer contain no online message.
\<close>

theorem viewer_snapshot:
  assumes "q_role q = Some ''viewer''" and "truthy (q_userId q)" and "well_formed s"
    and "list_all (\<lambda>e. \<not> machine_upgrade e) evs"
  shows "snd (handleWebSocketUpgrade s q) = 101 \<and>
    map ws_id (sockets (fst (handleWebSocketUpgrade s q))) = map ws_id (sockets s) @ [next_id s] \<and>
    sent_since s (fst (handleWebSocketUpgrade s q)) =
      map (\<lambda>w. (next_id s, status_text ''online'' w))
        (filter named_machine (getMachineWebSockets s)) \<and>
    received (sent s) (next_id s) = [] \<and>
    received (sent (fst (handleWebSocketUpgrade s q))) (next_id s) =
      map (status_text ''online'') (filter named_machine (getMachineWebSockets s)) \<and>
    (\<exists>later.
       received (sent (run (fst (handleWebSocketUpgrade s q)) evs)) (next_id s) =
         map (status_text ''online'') (filter named_machine (getMachineWebSockets s)) @ later \<and>
       filter is_online_status later = [])"
proof -
  let ?s' = "fst (handleWebSocketUpgrade s q)"
  let ?snap = "map (status_text ''online'') (filter named_machine (getMachineWebSockets s))"
  have up: "handleWebSocketUpgrade s q =
     (s\<lparr>sockets := sockets s @
           [\<lparr>ws_id = next_id s,
             attachment = Some \<lparr>machineId = q_machineId q, machineName = q_machineName q,
                                role = ''viewer'', userId = nullish_or (q_userId q) ''''\<rparr>\<rparr>],
         next_id := Suc (next_id s),
         sent := sent s @
           map (\<lambda>w. (next_id s, status_text ''online'' w))
             (filter named_machine (getMachineWebSockets s))\<rparr>,
      101)"
    by (rule viewer_upgrade_eq [OF assms(1,2)])
  have fresh: "received (sent s) (next_id s) = []"
    using assms(3) by (simp add: well_formed_def received_fresh)
  have now: "received (sent ?s') (next_id s) = ?snap"
    by (simp add: up received_append fresh received_same)
  have "next_id s < next_id ?s'" by (simp add: up)
  from run_quiet [OF assms(4) this] obtain later where
    l: "sent (run ?s' evs) = sent ?s' @ later"
       "filter is_online_status (received later (next_id s)) = []" by blast
  have "received (sent (run ?s' evs)) (next_id s) = ?snap @ received later (next_id s)"
    by (simp add: l(1) received_append now)
  with l(2) have "\<exists>later.
       received (sent (run ?s' evs)) (next_id s) = ?snap @ later \<and>
       filter is_online_status later = []" by blast
  with fresh now show ?thesis by (simp add: up sent_since_def)
qed

text \<open>
  Claim C4 as stated counts every registered machine connection. A machine connection
  without a machine name is registered (the upgrade only requires a role and a user id) but
  is left out of the snapshot: one machine socket is registered, and the viewer that joins
  is sent nothing.
\<close>

theorem unnamed_machine_missing_from_snapshot:
  "length (getMachineWebSockets (actor_with [unnamed_machine_socket 0 ''m1''])) = 1 \<and>
   handleWebSocketUpgrade (actor_with [unnamed_machine_socket 0 ''m1'']) viewer_query =
     (\<lparr>sockets = [unnamed_machine_socket 0 ''m1'', viewer_socket 1],
       sent = [], closed = [], next_id = 2\<rparr>, 101)"
  by (simp add: handleWebSocketUpgrade_eq actor_with_def viewer_socket_def viewer_query_def
      unnamed_machine_socket_def getMachineWebSockets_def has_role_def named_machine_def)

theorem viewer_snapshot_witness:
  "received (sent (fst (handleWebSocketUpgrade two_machines viewer_query))) 2 =
     [JSON_stringify (MachineStatusMessage ''m1'' ''Box'' ''online''),
      JSON_stringify (MachineStatusMessage ''m2'' ''Mac'' ''online'')] \<and>
   filter is_online_status
     (received (sent (run (fst (handleWebSocketUpgrade two_machines viewer_query)) later_events))
        2) =
     [JSON_stringify (MachineStatusMessage ''m1'' ''Box'' ''online''),
      JSON_stringify (MachineStatusMessage ''m2'' ''Mac'' ''online'')]"
proof -
  have q: "q_role viewer_query = Some ''viewer''" "truthy (q_userId viewer_query)"
    by (simp_all add: viewer_query_def)
  have w: "well_formed two_machines"
    by (simp add: well_formed_def two_machines_def actor_with_def machine_socket_def)
  have e: "list_all (\<lambda>e. \<not> machine_upgrade e) later_events"
    by (simp add: later_events_def viewer_query_def)
  have m: "map (status_text ''online'') (filter named_machine (getMachineWebSockets two_machines)) =
     [JSON_stringify (MachineStatusMessage ''m1'' ''Box'' ''online''),
      JSON_stringify (MachineStatusMessage ''m2'' ''Mac'' ''online'')]"
    by (simp add: two_machines_def actor_with_def machine_socket_def getMachineWebSockets_def
        has_role_def named_machine_def status_text_def)
  have n: "next_id two_machines = 2"
    by (simp add: two_machines_def actor_with_def)
  have o: "filter is_online_status
     [JSON_stringify (MachineStatusMessage ''m1'' ''Box'' ''online''),
      JSON_stringify (MachineStatusMessage ''m2'' ''Mac'' ''online'')] =
     [JSON_stringify (MachineStatusMessage ''m1'' ''Box'' ''online''),
      JSON_stringify (MachineStatusMessage ''m2'' ''Mac'' ''online'')]"
    by (simp add: JSON_stringify_def MachineStatusMessage_def)
  from viewer_snapshot [OF q w e, unfolded m n] obtain later where
    l: "received (sent (fst (handleWebSocketUpgrade two_machines viewer_query))) 2 =
          [JSON_stringify (MachineStatusMessage ''m1'' ''Box'' ''online''),
           JSON_stringify (MachineStatusMessage ''m2'' ''Mac'' ''online'')]"
       "received (sent (run (fst (handleWebSocketUpgrade two_machines viewer_query))
          later_events)) 2 =
          [JSON_stringify (MachineStatusMessage ''m1'' ''Box'' ''online''),
           JSON_stringify (MachineStatusMessage ''m2'' ''Mac'' ''online'')] @ later"
       "filter is_online_status later = []"
    by blast
  show ?thesis
    unfolding l(1) l(2) filter_append o l(3) by simp
qed

section \<open>Local forwarding\<close>

lemma delivery_report_result_fields:
  "field (JObject (defined_props (delivery_report webhookMsg result))) ''status'' =
     Some (JString (status_string (status result)))"
  "field (JObject (defined_props (delivery_report webhookMsg result))) ''responseStatus'' =
     Some (nullable_number (responseStatus result))"
  "field (JObject (defined_props (delivery_report webhookMsg result))) ''responseBody'' =
     Some (nullable (responseBody result))"
  "field (JObject (defined_props (delivery_report webhookMsg result))) ''error'' =
     Some (nullable (error result))"
  "field (JObject (defined_props (delivery_report webhookMsg result))) ''duration'' =
     Some (JNumber (duration result))"
  by (simp_all add: field_defined_props [OF delivery_report_keys])
     (simp_all add: delivery_report_def)

lemma status_string_delivered [simp]: "status_string st = ''delivered'' \<longleftrightarrow> st = Delivered"
  by (cases st) simp_all

text \<open>
  Claim C10: the delivery report built from a local forward has status \<open>delivered\<close>
  exactly when the local destination responded with a status from 200 to 299; a response
  with another status is reported as \<open>failed\<close> with that status; a thrown error is
  reported as \<open>failed\<close> with a null response status and the error's message; and the
  reported response body is the first 10000 characters of the response text at most.
\<close>

theorem forward_report_status:
  "let result = forwardWebhookLocally startTime now attempt;
       report = JObject (defined_props (delivery_report webhookMsg result))
   in (field report ''status'' = Some (JString ''delivered'') \<longleftrightarrow>
         (\<exists>res. attempt = Responded res \<and> 200 \<le> res_status res \<and> res_status res \<le> 299)) \<and>
      (\<forall>res. attempt = Responded res \<and> \<not> (200 \<le> res_status res \<and> res_status res \<le> 299) \<longrightarrow>
         field report ''status'' = Some (JString ''failed'') \<and>
         field report ''responseStatus'' = Some (JNumber (int (res_status res)))) \<and>
      (\<forall>msg. attempt = Threw (ErrorObject msg) \<longrightarrow>
         field report ''status'' = Some (JString ''failed'') \<and>
         field report ''responseStatus'' = Some JNull \<and>
         field report ''error'' = Some (JString msg)) \<and>
      (\<forall>res. attempt = Responded res \<longrightarrow>
         responseBody result = map_option (take 10000) (res_text res)) \<and>
      (field report ''responseBody'' = Some JNull \<or>
       (\<exists>b. field report ''responseBody'' = Some (JString b) \<and> length b \<le> 10000))"
proof (cases attempt)
  case (Threw err)
  show ?thesis
    unfolding Let_def delivery_report_result_fields
    by (cases err) (simp_all add: Threw forwardWebhookLocally_def)
next
  case (Responded res)
  show ?thesis
    unfolding Let_def delivery_report_result_fields
    by (cases "res_text res") (simp_all add: Responded forwardWebhookLocally_def res_ok_def)
qed

theorem forward_report_status_witness:
  "field (JObject (defined_props (delivery_report (WebhookEventMessage (event_payload Map.empty) ''d1'')
      (forwardWebhookLocally 0 12 (Responded \<lparr>res_status = 404, res_text = Some ''no''\<rparr>)))))
     ''status'' = Some (JString ''failed'') \<and>
   field (JObject (defined_props (delivery_report (WebhookEventMessage (event_payload Map.empty) ''d1'')
      (forwardWebhookLocally 0 12 (Responded \<lparr>res_status = 404, res_text = Some ''no''\<rparr>)))))
     ''responseStatus'' = Some (JNumber 404) \<and>
   field (JObject (defined_props (delivery_report (WebhookEventMessage (event_payload Map.empty) ''d1'')
      (forwardWebhookLocally 0 12 (Threw (ErrorObject ''ECONNREFUSED''))))))
     ''error'' = Some (JString ''ECONNREFUSED'')"
  using forward_report_status
    [of 0 12 "Responded \<lparr>res_status = 404, res_text = Some ''no''\<rparr>"
        "WebhookEventMessage (event_payload Map.empty) ''d1''"]
    forward_report_status
    [of 0 12 "Threw (ErrorObject ''ECONNREFUSED'')"
        "WebhookEventMessage (event_payload Map.empty) ''d1''"]
  unfolding Let_def delivery_report_result_fields
  by (simp add: forwardWebhookLocally_def res_ok_def)

section \<open>The machine identity resolver: the name pattern\<close>

lemma suffix_re_from_Suc:
  "suffix_re_from (Suc k) name =
     (if match_at (Suc k) name then Some (take (Suc k) name) else suffix_re_from k name)"
  by (simp add: match_at_def)

lemma suffix_re_from_Some:
  "suffix_re_from k name = Some g \<Longrightarrow>
   \<exists>j. 0 < j \<and> j \<le> k \<and> match_at j name \<and> g = take j name"
proof (induction k)
  case 0
  then show ?case by simp
next
  case (Suc k)
  show ?case
  proof (cases "match_at (Suc k) name")
    case True
    with Suc.prems have "g = take (Suc k) name"
      by (simp only: suffix_re_from_Suc if_True option.inject)
    with True show ?thesis by blast
  next
    case False
    with Suc.prems have "suffix_re_from k name = Some g"
      by (simp only: suffix_re_from_Suc if_False)
    from Suc.IH [OF this] obtain j where
      "0 < j" "j \<le> k" "match_at j name" "g = take j name" by blast
    then have "0 < j \<and> j \<le> Suc k \<and> match_at j name \<and> g = take j name" by simp
    then show ?thesis by blast
  qed
qed

lemma suffix_re_from_match:
  "match_at j name \<Longrightarrow> 0 < j \<Longrightarrow> j \<le> k \<Longrightarrow> \<exists>g. suffix_re_from k name = Some g"
proof (induction k)
  case 0
  then show ?case by simp
next
  case (Suc k)
  show ?case
  proof (cases "match_at (Suc k) name")
    case True
    then show ?thesis by (simp only: suffix_re_from_Suc if_True) blast
  next
    case False
    with Suc.prems have "j \<le> k" by (cases "j = Suc k") auto
    from Suc.IH [OF Suc.prems(1,2) this] False show ?thesis
      by (simp only: suffix_re_from_Suc if_False)
  qed
qed

lemma hyphen_not_digit: "\<not> is_digit CHR ''-''"
  by (simp add: is_digit_def)

lemma match_at_less: "match_at j name \<Longrightarrow> j < length name"
proof (rule ccontr)
  assume m: "match_at j name" and "\<not> j < length name"
  then have "drop j name = []" by simp
  with m show False by (simp add: match_at_def)
qed

lemma match_at_unique_less:
  assumes "match_at j name" and "match_at j' name" and "j < j'"
  shows False
proof -
  from assms(1) obtain ds where ds: "drop j name = CHR ''-'' # ds" "list_all is_digit ds"
    by (cases "drop j name") (auto simp: match_at_def)
  from assms(2) obtain ds' where ds': "drop j' name = CHR ''-'' # ds'"
    by (cases "drop j' name") (auto simp: match_at_def)
  from assms(3) obtain d where d: "j' = j + Suc d" by (metis less_iff_Suc_add add_Suc_right)
  have "drop j' name = drop (Suc d) (drop j name)" by (simp add: d add.commute)
  also have "\<dots> = drop d ds" by (simp add: ds(1))
  finally have "CHR ''-'' # ds' = drop d ds" using ds' by simp
  then have "CHR ''-'' \<in> set (drop d ds)" by (metis list.set_intros(1))
  then have "CHR ''-'' \<in> set ds" by (rule in_set_dropD)
  with ds(2) have "is_digit CHR ''-''" by (simp add: list_all_iff)
  with hyphen_not_digit show False by simp
qed

lemma match_at_unique: "match_at j name \<Longrightarrow> match_at j' name \<Longrightarrow> j = j'"
  by (metis match_at_unique_less linorder_neqE_nat)

lemma MACHINE_NAME_SUFFIX_RE_iff:
  "MACHINE_NAME_SUFFIX_RE name = Some g \<longleftrightarrow>
   g \<noteq> [] \<and> list_all (\<lambda>c. \<not> is_line_terminator c) g \<and> base_dash_number g name"
proof
  assume "MACHINE_NAME_SUFFIX_RE name = Some g"
  then obtain j where j: "0 < j" "j \<le> length name" "match_at j name" "g = take j name"
    unfolding MACHINE_NAME_SUFFIX_RE_def by (blast dest: suffix_re_from_Some)
  from j(3) have lt: "j < length name" by (rule match_at_less)
  then have len: "length g = j" by (simp add: j(4))
  from j(1) len have "g \<noteq> []" by auto
  moreover from j(3) have "list_all (\<lambda>c. \<not> is_line_terminator c) g"
    by (simp add: match_at_def j(4))
  moreover from j(3) lt have "base_dash_number g name"
    unfolding base_dash_number_def len by (simp add: match_at_def j(4))
  ultimately show "g \<noteq> [] \<and> list_all (\<lambda>c. \<not> is_line_terminator c) g \<and> base_dash_number g name"
    by simp
next
  assume a: "g \<noteq> [] \<and> list_all (\<lambda>c. \<not> is_line_terminator c) g \<and> base_dash_number g name"
  then have tk: "take (length g) name = g" and lt: "length g < length name"
    by (simp_all add: base_dash_number_def)
  from a have m: "match_at (length g) name"
    by (simp add: match_at_def base_dash_number_def)
  from a have pos: "0 < length g" by simp
  from lt have le: "length g \<le> length name" by simp
  from suffix_re_from_match [OF m pos le] obtain g' where
    g': "suffix_re_from (length name) name = Some g'" by blast
  from suffix_re_from_Some [OF g'] obtain j where
    j: "match_at j name" "g' = take j name" by blast
  from match_at_unique [OF j(1) m] have "j = length g" .
  with j(2) tk have "g' = g" by simp
  with g' show "MACHINE_NAME_SUFFIX_RE name = Some g"
    by (simp add: MACHINE_NAME_SUFFIX_RE_def)
qed

lemma own_machine_iff:
  "own_machine baseName m \<longleftrightarrow>
   m_name m = baseName \<or>
   (baseName \<noteq> [] \<and> list_all (\<lambda>c. \<not> is_line_terminator c) baseName \<and>
    base_dash_number baseName (m_name m))"
  by (auto simp: own_machine_def MACHINE_NAME_SUFFIX_RE_iff)

section \<open>The machine identity resolver: reuse or register\<close>

lemma digit_char_cases:
  "k < 10 \<Longrightarrow> is_digit (''0123456789'' ! k) \<and> digit_value (''0123456789'' ! k) = k"
proof -
  assume "k < 10"
  then have "k = 0 \<or> k = 1 \<or> k = 2 \<or> k = 3 \<or> k = 4 \<or> k = 5 \<or> k = 6 \<or> k = 7 \<or> k = 8 \<or> k = 9"
    by arith
  then show ?thesis
    by (elim disjE) (simp_all add: is_digit_def digit_value_def)
qed

lemma decimal_digits: "decimal n \<noteq> [] \<and> list_all is_digit (decimal n)"
proof (induction n rule: decimal.induct)
  case (1 n)
  show ?case
  proof (cases "n < 10")
    case True
    then show ?thesis by (simp add: decimal.simps [of n] digit_char_cases)
  next
    case False
    have "n mod 10 < 10" by simp
    with False 1 show ?thesis
      by (simp add: decimal.simps [of n] digit_char_cases)
  qed
qed

lemma number_of_snoc: "number_of (ds @ [c]) = 10 * number_of ds + digit_value c"
  by (simp add: number_of_def)

lemma number_of_decimal: "number_of (decimal n) = n"
proof (induction n rule: decimal.induct)
  case (1 n)
  show ?case
  proof (cases "n < 10")
    case True
    then show ?thesis
      by (simp add: decimal.simps [of n] number_of_def digit_char_cases)
  next
    case False
    have "n mod 10 < 10" by simp
    then have "digit_value (''0123456789'' ! (n mod 10)) = n mod 10"
      by (simp only: digit_char_cases)
    with False 1 show ?thesis
      by (simp add: decimal.simps [of n] number_of_snoc)
  qed
qed

lemma base_dash_decimal: "base_dash_number baseName (baseName @ ''-'' @ decimal n)"
  using decimal_digits [of n] by (simp add: base_dash_number_def)

lemma find_first:
  "list_all (\<lambda>x. \<not> P x) before \<Longrightarrow> P m \<Longrightarrow> find P (before @ m # after) = Some m"
  by (induction before) simp_all

lemma find_none: "list_all (\<lambda>x. \<not> P x) xs \<Longrightarrow> find P xs = None"
  by (induction xs) simp_all

lemma ownMachines_eq:
  "filter (own_machine baseName) machines =
   filter (\<lambda>m. m_name m = baseName \<or>
             (baseName \<noteq> [] \<and> list_all (\<lambda>c. \<not> is_line_terminator c) baseName \<and>
              base_dash_number baseName (m_name m))) machines"
  by (rule filter_cong) (simp_all add: own_machine_iff)

text \<open>
  Claim C7, as the code has it. The partition \<open>ownMachines\<close> holds the listed machines
  whose name is the base name, or is the base name followed by a hyphen and one or more
  decimal digits (the pattern \<open>^(.+)-(\d+)$\<close> with group 1 equal to the base name, so a
  suffixed name only matches a base name that is non-empty and has no line terminator). If
  the partition has a machine with status \<open>offline\<close>, the first such machine is reused:
  returned as it is when its forward URL is the requested one, otherwise its forward URL is
  updated; nothing is registered. If no machine of a non-empty partition is offline, a
  machine is registered under the base name followed by a hyphen and the decimal digits of
  the partition's size plus one, a name that is again of the form \<open>base-N\<close>. If the
  partition is empty, the machine is registered under the base name itself.
\<close>

theorem findOrCreateMachine_resolution:
  "let baseName = (case nameOverride of None \<Rightarrow> getMachineName hostname | Some n \<Rightarrow> n);
       ownMachines =
         filter (\<lambda>m. m_name m = baseName \<or>
                   (baseName \<noteq> [] \<and> list_all (\<lambda>c. \<not> is_line_terminator c) baseName \<and>
                    base_dash_number baseName (m_name m))) machines;
       result = findOrCreateMachine machines hostname endpointId forwardUrl nameOverride
   in (\<forall>before m after.
         ownMachines = before @ m # after \<and>
         list_all (\<lambda>x. m_status x \<noteq> ''offline'') before \<and> m_status m = ''offline'' \<longrightarrow>
         result = (if m_forwardUrl m = forwardUrl then Reused m
                   else Updated (m_id m) forwardUrl)) \<and>
      (list_all (\<lambda>x. m_status x \<noteq> ''offline'') ownMachines \<and> ownMachines \<noteq> [] \<longrightarrow>
         result = Registered endpointId
                    (baseName @ ''-'' @ decimal (length ownMachines + 1)) forwardUrl \<and>
         base_dash_number baseName (baseName @ ''-'' @ decimal (length ownMachines + 1)) \<and>
         number_of (decimal (length ownMachines + 1)) = length ownMachines + 1) \<and>
      (ownMachines = [] \<longrightarrow> result = Registered endpointId baseName forwardUrl)"
proof -
  define baseName where
    "baseName = (case nameOverride of None \<Rightarrow> getMachineName hostname | Some n \<Rightarrow> n)"
  define ownMachines where "ownMachines = filter (own_machine baseName) machines"
  define result where
    "result = findOrCreateMachine machines hostname endpointId forwardUrl nameOverride"
  have r: "result =
      (case find (\<lambda>m. m_status m = ''offline'') ownMachines of
         Some offlineMachine \<Rightarrow>
           if m_forwardUrl offlineMachine \<noteq> forwardUrl
           then Updated (m_id offlineMachine) forwardUrl
           else Reused offlineMachine
       | None \<Rightarrow>
           Registered endpointId
             (if length ownMachines > 0
              then baseName @ ''-'' @ decimal (length ownMachines + 1)
              else baseName) forwardUrl)"
    unfolding result_def findOrCreateMachine_def Let_def baseName_def ownMachines_def
    by (cases "find (\<lambda>m. m_status m = ''offline'')
          (filter (own_machine (case nameOverride of None \<Rightarrow> getMachineName hostname
             | Some n \<Rightarrow> n)) machines)") simp_all
  have a: "result = (if m_forwardUrl m = forwardUrl then Reused m else Updated (m_id m) forwardUrl)"
    if "ownMachines = before @ m # after"
      and "list_all (\<lambda>x. m_status x \<noteq> ''offline'') before" and "m_status m = ''offline''"
    for before m after
  proof -
    have "find (\<lambda>m. m_status m = ''offline'') ownMachines = Some m"
      unfolding that(1) using that(2,3) by (intro find_first) simp_all
    then show ?thesis by (simp add: r)
  qed
  have b: "result = Registered endpointId
                    (baseName @ ''-'' @ decimal (length ownMachines + 1)) forwardUrl"
    if "list_all (\<lambda>x. m_status x \<noteq> ''offline'') ownMachines" and "ownMachines \<noteq> []"
  proof -
    have "find (\<lambda>m. m_status m = ''offline'') ownMachines = None"
      using that(1) by (intro find_none) simp
    with that(2) show ?thesis by (simp add: r)
  qed
  have c: "result = Registered endpointId baseName forwardUrl" if "ownMachines = []"
    using that by (simp add: r)
  show ?thesis
    unfolding Let_def ownMachines_eq [symmetric]
    unfolding baseName_def [symmetric] ownMachines_def [symmetric] result_def [symmetric]
    using a b c base_dash_decimal number_of_decimal by blast
qed

text \<open>
  Claim C7 as stated gives the new record the name \<open>base-(count+1)\<close> whenever all
  matching records are online. With no matching record at all (count 0) that would be
  \<open>box-1\<close>; the code registers \<open>box\<close>.
\<close>

theorem first_machine_gets_plain_name:
  "filter (own_machine ''box'') [] = [] \<and>
   findOrCreateMachine [] ''box.local'' ''ep1'' ''http://localhost:3000'' None =
     Registered ''ep1'' ''box'' ''http://localhost:3000'' \<and>
   ''box'' @ ''-'' @ decimal (length (filter (own_machine ''box'') []) + 1) = ''box-1''"
  by (simp add: findOrCreateMachine_def getMachineName_def decimal.simps)

theorem findOrCreateMachine_resolution_witness:
  "findOrCreateMachine [laptop_offline, box_online, box2_offline] ''box.local'' ''ep1''
     ''http://localhost:3000'' None = Updated ''2'' ''http://localhost:3000'' \<and>
   findOrCreateMachine [laptop_offline, box_online, box2_online] ''box.local'' ''ep1''
     ''http://localhost:3000'' None = Registered ''ep1'' ''box-3'' ''http://localhost:3000'' \<and>
   findOrCreateMachine [laptop_offline] ''box.local'' ''ep1''
     ''http://localhost:3000'' None = Registered ''ep1'' ''box'' ''http://localhost:3000''"
proof -
  have base: "getMachineName ''box.local'' = ''box''"
    by (simp add: getMachineName_def)
  have nolt: "list_all (\<lambda>c. \<not> is_line_terminator c) ''box''"
    by (simp add: is_line_terminator_def)
  have names: "base_dash_number ''box'' ''box-2''" "\<not> base_dash_number ''box'' ''box''"
    "\<not> base_dash_number ''box'' ''laptop''"
    by (simp_all add: base_dash_number_def is_digit_def)
  have three: "decimal (Suc (Suc (Suc 0))) = ''3''"
    by (simp add: decimal.simps)
  note defs = box_online_def box2_offline_def box2_online_def laptop_offline_def
    machine_record_def
  have own1: "filter (\<lambda>m. m_name m = ''box'' \<or>
        (''box'' \<noteq> [] \<and> list_all (\<lambda>c. \<not> is_line_terminator c) ''box'' \<and>
         base_dash_number ''box'' (m_name m))) [laptop_offline, box_online, box2_offline] =
      [box_online] @ box2_offline # []"
    using nolt names by (simp add: defs)
  have own2: "filter (\<lambda>m. m_name m = ''box'' \<or>
        (''box'' \<noteq> [] \<and> list_all (\<lambda>c. \<not> is_line_terminator c) ''box'' \<and>
         base_dash_number ''box'' (m_name m))) [laptop_offline, box_online, box2_online] =
      [box_online, box2_online]"
    using nolt names by (simp add: defs)
  have own3: "filter (\<lambda>m. m_name m = ''box'' \<or>
        (''box'' \<noteq> [] \<and> list_all (\<lambda>c. \<not> is_line_terminator c) ''box'' \<and>
         base_dash_number ''box'' (m_name m))) [laptop_offline] = []"
    using nolt names by (simp add: defs)
  have 1: "findOrCreateMachine [laptop_offline, box_online, box2_offline] ''box.local'' ''ep1''
     ''http://localhost:3000'' None = Updated ''2'' ''http://localhost:3000''"
    using findOrCreateMachine_resolution
      [where nameOverride = None and hostname = "''box.local''"
          and machines = "[laptop_offline, box_online, box2_offline]"
          and endpointId = "''ep1''" and forwardUrl = "''http://localhost:3000''",
        unfolded Let_def option.case base own1, THEN conjunct1, rule_format,
        of "[box_online]" box2_offline "[]"]
    by (simp add: defs)
  have 2: "findOrCreateMachine [laptop_offline, box_online, box2_online] ''box.local'' ''ep1''
     ''http://localhost:3000'' None = Registered ''ep1'' ''box-3'' ''http://localhost:3000''"
    using findOrCreateMachine_resolution
      [where nameOverride = None and hostname = "''box.local''"
          and machines = "[laptop_offline, box_online, box2_online]"
          and endpointId = "''ep1''" and forwardUrl = "''http://localhost:3000''",
        unfolded Let_def option.case base own2, THEN conjunct2, THEN conjunct1]
    by (simp add: defs three)
  have 3: "findOrCreateMachine [laptop_offline] ''box.local'' ''ep1''
     ''http://localhost:3000'' None = Registered ''ep1'' ''box'' ''http://localhost:3000''"
    using findOrCreateMachine_resolution
      [where nameOverride = None and hostname = "''box.local''"
          and machines = "[laptop_offline]"
          and endpointId = "''ep1''" and forwardUrl = "''http://localhost:3000''",
        unfolded Let_def option.case base own3, THEN conjunct2, THEN conjunct2]
    by simp
  from 1 2 3 show ?thesis by simp
qed

section \<open>Reconnecting clients\<close>

text \<open>
  Claim C8, as the code has it: whatever happened to the viewer hook before (any number of
  connects, opens and closes, so also after any number of consecutive failures), a close of
  its socket marks it disconnected, clears the socket reference and schedules a reconnect
  after the fixed delay of 3000 ms; opening a socket changes nothing about the delay. The
  monitor screen of the machine client schedules no reconnect, neither on close nor on
  error.
\<close>

theorem reconnect_after_fixed_delay:
  "reconnectTimeoutRef (viewer_step (viewer_run h evs) Closes) = Some 3000 \<and>
   connected (viewer_step (viewer_run h evs) Closes) = False \<and>
   wsRef (viewer_step (viewer_run h evs) Closes) = None \<and>
   reconnectTimeoutRef (viewer_step h Opens) = reconnectTimeoutRef h \<and>
   snd (monitor_onclose m) = [] \<and>
   snd (monitor_onerror m) = []"
  by (simp add: viewer_onclose_def viewer_onopen_def monitor_onclose_def monitor_onerror_def)

text \<open>
  Claim C8 as stated (a delay that starts at one time unit and doubles on each consecutive
  failure) fails: the viewer connects, opens and closes, and waits 3000 ms; the reconnect
  attempt closes without opening, and the viewer waits 3000 ms again, where a delay that
  started at 3000 ms would have doubled to 6000 ms. The machine client, connected and then
  closed, schedules nothing.
\<close>

theorem second_failure_waits_as_long_as_first:
  "reconnectTimeoutRef (viewer_run unmounted_hook [Connects 1, Opens, Closes]) = Some 3000 \<and>
   reconnectTimeoutRef
     (viewer_run unmounted_hook [Connects 1, Opens, Closes, Connects 2, Closes]) = Some 3000 \<and>
   claimed_backoff 3000 0 = 3000 \<and>
   claimed_backoff 3000 1 = 6000 \<and>
   snd (monitor_onclose (fst (monitor_onopen connecting_monitor))) = []"
  by (simp add: viewer_run_def viewer_onclose_def viewer_onopen_def viewer_connect_def
      unmounted_hook_def claimed_backoff_def monitor_onclose_def monitor_onopen_def)

section \<open>The registry invariant\<close>

text \<open>
  The hypotheses on socket identities used above hold of every state the actor reaches: the
  empty actor is well formed, and every call keeps the state well formed, whatever socket
  the host passes to a callback.
\<close>

lemma well_formed_append_sends:
  assumes "well_formed s" and "list_all (\<lambda>e. fst e < next_id s) new"
  shows "well_formed (s\<lparr>sent := sent s @ new\<rparr>)"
  using assms by (simp add: well_formed_def)

lemma registered_id: "well_formed s \<Longrightarrow> w \<in> set (sockets s) \<Longrightarrow> ws_id w < next_id s"
  by (simp add: well_formed_def list_all_iff)

lemma sends_to_registered:
  "well_formed s \<Longrightarrow> set wss \<subseteq> set (sockets s) \<Longrightarrow>
   list_all (\<lambda>e. fst e < next_id s) (map (\<lambda>w. (ws_id w, f w)) wss)"
  by (auto simp: list_all_iff intro!: registered_id)

lemma viewers_subset: "set (getViewerWebSockets s) \<subseteq> set (sockets s)"
  by (auto simp: getViewerWebSockets_def)

lemma machines_subset: "set (getMachineWebSockets s) \<subseteq> set (sockets s)"
  by (auto simp: getMachineWebSockets_def)

lemma webhook_sends_registered:
  "well_formed s \<Longrightarrow> set wss \<subseteq> set (sockets s) \<Longrightarrow>
   list_all (\<lambda>e. fst e < next_id s) (webhook_sends payload wss)"
  by (auto simp: list_all_iff webhook_sends_mem intro!: registered_id)

lemma well_formed_ws_close: "well_formed s \<Longrightarrow> well_formed (ws_close s ws code reason)"
  by (auto simp: well_formed_def ws_close_def list_all_iff distinct_map_filter)

lemma well_formed_notify_offline: "well_formed s \<Longrightarrow> well_formed (notify_offline s ws)"
  unfolding notify_offline_eq
  by (rule well_formed_append_sends) (simp_all add: sends_to_registered viewers_subset)

lemma well_formed_handleBroadcast: "well_formed s \<Longrightarrow> well_formed (fst (handleBroadcast s payload))"
  unfolding handleBroadcast_eq fst_conv
  by (rule well_formed_append_sends) (simp_all add: webhook_sends_registered machines_subset)

lemma well_formed_webSocketMessage:
  assumes "well_formed s"
  shows "well_formed (fst (webSocketMessage s ws message))"
proof (cases "\<exists>t parsed att. message = Text t \<and> JSON_parse t = Inr parsed \<and>
    field parsed ''type'' = Some (JString ''delivery-report'') \<and> attachment ws = Some att")
  case True
  then obtain t parsed att where h: "message = Text t" "JSON_parse t = Inr parsed"
    "field parsed ''type'' = Some (JString ''delivery-report'')" "attachment ws = Some att"
    by blast
  have "set (filter (\<lambda>m. ws_id m \<noteq> ws_id ws) (getMachineWebSockets s)) \<subseteq> set (sockets s)"
    using machines_subset [of s] by auto
  then show ?thesis
    unfolding h(1) webSocketMessage_report_eq [OF h(2-4)] fst_conv
    using assms
    by (intro well_formed_append_sends) (simp_all add: sends_to_registered viewers_subset)
next
  case False
  have "fst (webSocketMessage s ws message) = s"
  proof (cases message)
    case ArrayBuffer
    then show ?thesis by (simp add: webSocketMessage_def)
  next
    case (Text t)
    show ?thesis
    proof (cases "JSON_parse t")
      case (Inl e)
      with Text show ?thesis by (simp add: webSocketMessage_def)
    next
      case (Inr parsed)
      show ?thesis
      proof (cases "field parsed ''type'' = Some (JString ''delivery-report'')")
        case True
        with False Text Inr have "attachment ws = None" by (cases "attachment ws") auto
        moreover from True have "get_prop parsed ''type'' = Inr (field parsed ''type'')"
          by (cases parsed) simp_all
        ultimately show ?thesis using Text Inr True
          by (simp add: webSocketMessage_def)
      next
        case False
        then show ?thesis using Text Inr
          by (cases parsed) (simp_all add: webSocketMessage_def)
      qed
    qed
  qed
  with assms show ?thesis by simp
qed

lemma well_formed_handleWebSocketUpgrade:
  assumes "well_formed s"
  shows "well_formed (fst (handleWebSocketUpgrade s q))"
proof (cases "truthy (q_role q) \<and> truthy (q_userId q)")
  case False
  with assms show ?thesis by (simp add: handleWebSocketUpgrade_eq)
next
  case True
  have v: "list_all (\<lambda>e. fst e < Suc (next_id s))
      (map (\<lambda>v. (ws_id v, m)) (getViewerWebSockets s))" for m :: wire
    using assms viewers_subset [of s]
    by (auto simp: list_all_iff intro!: less_SucI registered_id)
  have n: "list_all (\<lambda>e. fst e < Suc (next_id s)) (map (\<lambda>w. (next_id s, f w)) wss)"
    for f :: "WebSocket \<Rightarrow> wire" and wss
    by (simp add: list_all_iff)
  have old: "list_all (\<lambda>e. fst e < Suc (next_id s)) (sent s)"
    "list_all (\<lambda>ws. ws_id ws < Suc (next_id s)) (sockets s)"
    "next_id s \<notin> ws_id ` set (sockets s)" "distinct (map ws_id (sockets s))"
    using assms by (auto simp: well_formed_def list_all_iff)
  show ?thesis
    using True old v n by (simp add: handleWebSocketUpgrade_eq well_formed_def)
qed

lemma well_formed_step: "well_formed s \<Longrightarrow> well_formed (step s e)"
  by (cases e)
     (simp_all add: well_formed_handleWebSocketUpgrade well_formed_handleBroadcast well_formed_webSocketMessage
        webSocketClose_def webSocketError_def well_formed_ws_close well_formed_notify_offline)

lemma well_formed_run: "well_formed s \<Longrightarrow> well_formed (run s evs)"
  unfolding run_def by (induction evs arbitrary: s) (simp_all add: well_formed_step)

lemma well_formed_initial: "well_formed (actor_with [])"
  by (simp add: well_formed_def actor_with_def)

end
